theory Spec2Isabelle
  imports Complex_Main "HOL-Library.AList"
begin

section \<open>Chit-fund payment ledger: the model of the source\<close>

text \<open>
  The development embeds \<^verbatim>\<open>src/models/userPayment.js\<close> (the two schemas and the
  pre-save middleware) and the mutating handlers of
  \<^verbatim>\<open>src/controllers/userPaymentsController.js\<close>.

  Conventions of the embedding:
  \<^item> a JavaScript Number that counts months (\<open>tenure\<close>, \<open>monthNumber\<close>, the month
    counters) is an \<open>int\<close>; a Number that holds money is the \<open>rat\<close> that the binary64
    value denotes, and the sums and quotients of the source round as binary64 does
    (subsection Numbers);
  \<^item> request bodies are well-typed JSON: a month number is a number, an amount is a
    finite number, a date has been parsed to a valid calendar date;
  \<^item> a free-form string is the list of its UTF-16 code units;
  \<^item> a field that may be \<open>undefined\<close> or \<open>null\<close> is an \<open>option\<close>;
  \<^item> the document store is an association list from document ids to documents;
  \<^item> a handler returns the HTTP response together with the store it leaves behind.
  The identity fields \<open>memberName\<close>, \<open>phoneNumber\<close>, \<open>email\<close> and \<open>address\<close>,
  the sub-document \<open>_id\<close> and the \<open>timestamps\<close> are read by none of the modelled
  operations and are not carried.
\<close>

subsection \<open>Dates\<close>

text \<open>
  A \<open>Date\<close> is modelled by its local calendar fields, named after the getters of the
  source language: \<open>getMonth\<close> is 0-based, \<open>getDate\<close> is the day of the month, and
  \<open>getTimeInDay\<close> the milliseconds since local midnight. Daylight-saving shifts are
  outside the model.
\<close>

record date =
  getFullYear :: int
  getMonth :: int
  getDate :: int
  getTimeInDay :: int

definition isLeapYear :: "int \<Rightarrow> bool" where
  "isLeapYear y = (y mod 4 = 0 \<and> (y mod 100 \<noteq> 0 \<or> y mod 400 = 0))"

definition daysInMonth :: "int \<Rightarrow> int \<Rightarrow> int" where
  "daysInMonth y m =
     (if m = 1 then (if isLeapYear y then 29 else 28)
      else if m = 3 \<or> m = 5 \<or> m = 8 \<or> m = 10 then 30
      else 31)"

text \<open>
  \<^verbatim>\<open>d.setMonth(m)\<close>: the month argument may lie outside 0..11 and then carries into the
  year (floor division, as in ECMAScript's MakeDay); a day of the month that the target
  month does not have runs over into the following month (31 January + 1 month is
  3 March, or 2 March in a leap year). The day of the month of the receiver is taken to
  be a valid one (1..31).
\<close>

definition setMonth :: "date \<Rightarrow> int \<Rightarrow> date" where
  "setMonth d m =
     (let y = getFullYear d + m div 12;
          mn = m mod 12;
          dim = daysInMonth y mn
      in if getDate d \<le> dim
         then d\<lparr>getFullYear := y, getMonth := mn\<rparr>
         else d\<lparr>getFullYear := y + (mn + 1) div 12,
                getMonth := (mn + 1) mod 12,
                getDate := getDate d - dim\<rparr>)"

text \<open>The relational operator \<^verbatim>\<open>a > b\<close> on two dates compares their instants.\<close>

definition date_gt :: "date \<Rightarrow> date \<Rightarrow> bool" where
  "date_gt a b =
     (getFullYear a > getFullYear b \<or>
      (getFullYear a = getFullYear b \<and>
        (getMonth a > getMonth b \<or>
         (getMonth a = getMonth b \<and>
           (getDate a > getDate b \<or>
            (getDate a = getDate b \<and> getTimeInDay a > getTimeInDay b))))))"

subsection \<open>Strings\<close>

text \<open>
  The free-form strings \<open>transactionId\<close> and \<open>remarks\<close> are lists of UTF-16 code
  units, so that \<open>length\<close> is the \<^verbatim>\<open>length\<close> of the source language. The strings that
  are matched against a pattern or an enumeration of ASCII words (\<open>aadharNumber\<close>,
  \<open>paymentMethod\<close>) are \<open>string\<close>s.
\<close>

type_synonym codeUnits = "nat list"

text \<open>
  The code units that \<^verbatim>\<open>String.prototype.trim\<close> strips: the white space of the
  language (TAB, VT, FF, SP, NBSP, ZWNBSP and the space separators of Unicode) and its
  line terminators (LF, CR, LS, PS).
\<close>

definition isWhiteSpace :: "nat \<Rightarrow> bool" where
  "isWhiteSpace c =
     (c \<in> set [0x0009, 0x000A, 0x000B, 0x000C, 0x000D, 0x0020, 0x00A0, 0x1680,
               0x2028, 0x2029, 0x202F, 0x205F, 0x3000, 0xFEFF] \<or>
      (0x2000 \<le> c \<and> c \<le> 0x200A))"

text \<open>The schema option \<^verbatim>\<open>trim: true\<close> stores \<^verbatim>\<open>value.trim()\<close>.\<close>

definition trim :: "codeUnits \<Rightarrow> codeUnits" where
  "trim s = rev (dropWhile isWhiteSpace (rev (dropWhile isWhiteSpace s)))"

subsection \<open>Numbers\<close>

text \<open>
  A finite Number is the rational it denotes. The result of an addition may also be an
  infinity. \<open>round64\<close> is the rounding of binary64 arithmetic: to the nearest
  representable value, ties to the even significand, with gradual underflow below
  \<open>2\<^sup>-\<^sup>1\<^sup>0\<^sup>2\<^sup>2\<close> and overflow to an infinity from \<open>2\<^sup>1\<^sup>0\<^sup>2\<^sup>4\<close> on.
\<close>

datatype number = Num rat | PosInfinity | NegInfinity

function ilog2 :: "int \<Rightarrow> nat" where
  "ilog2 n = (if n < 2 then 0 else Suc (ilog2 (n div 2)))"
  by pat_completeness auto
termination
  by (relation "measure nat") auto

declare ilog2.simps [simp del]

text \<open>For \<open>x > 0\<close>, the integer \<open>e\<close> with \<open>2\<^sup>e \<le> x < 2\<^sup>e\<^sup>+\<^sup>1\<close>.\<close>

definition floorLog2 :: "rat \<Rightarrow> int" where
  "floorLog2 x =
     (if x \<ge> 1 then int (ilog2 \<lfloor>x\<rfloor>)
      else - int (Suc (ilog2 (\<lceil>1 / x\<rceil> - 1))))"

definition pow2 :: "int \<Rightarrow> rat" where
  "pow2 k = (if k \<ge> 0 then 2 ^ nat k else 1 / 2 ^ nat (- k))"

definition roundHalfEven :: "rat \<Rightarrow> int" where
  "roundHalfEven x =
     (let f = \<lfloor>x\<rfloor>; d = x - of_int f
      in if d < 1 / 2 then f
         else if d > 1 / 2 then f + 1
         else if even f then f else f + 1)"

text \<open>The nearest value with a 53-bit significand and an exponent of at least -1022.\<close>

definition round64r :: "rat \<Rightarrow> rat" where
  "round64r x =
     (if x = 0 then 0
      else (let e = max (floorLog2 \<bar>x\<bar>) (- 1022);
                q = pow2 (e - 52);
                r = of_int (roundHalfEven (\<bar>x\<bar> / q)) * q
            in if x > 0 then r else - r))"

definition round64 :: "rat \<Rightarrow> number" where
  "round64 x =
     (if round64r x \<ge> pow2 1024 then PosInfinity
      else if round64r x \<le> - pow2 1024 then NegInfinity
      else Num (round64r x))"

text \<open>\<^verbatim>\<open>total + record.amount\<close>, where the amount is finite.\<close>

fun addNumber :: "number \<Rightarrow> rat \<Rightarrow> number" where
  "addNumber (Num x) a = round64 (x + a)"
| "addNumber PosInfinity a = PosInfinity"
| "addNumber NegInfinity a = NegInfinity"

text \<open>
  \<^verbatim>\<open>x / y\<close> for a finite \<open>x\<close> and a divisor that is a non-zero integer (the number of
  requested months, the tenure): the quotient does not overflow.
\<close>

definition divNumber :: "rat \<Rightarrow> rat \<Rightarrow> rat" where
  "divNumber x y = round64r (x / y)"

subsection \<open>The two schemas\<close>

datatype recordStatus = Paid | Pending | Overdue | Partial

datatype accountStatus = Active | Completed | Cancelled

text \<open>
  \<^verbatim>\<open>paymentRecordSchema\<close>. The field \<open>status\<close> of a payment record is named
  \<open>recordStatus\<close> here, since the account has a field \<open>status\<close> of its own.
\<close>

record paymentRecord =
  monthNumber :: int
  amount :: rat
  paymentDate :: date
  dueDate :: date
  recordStatus :: recordStatus
  paymentMethod :: string
  transactionId :: "codeUnits option"
  remarks :: "codeUnits option"
  lateFee :: rat

text \<open>\<^verbatim>\<open>userPaymentSchema\<close>.\<close>

record userPayment =
  aadharNumber :: string
  chitAmount :: rat
  tenure :: int
  monthlyPremium :: "rat option"
  startDate :: date
  endDate :: "date option"
  status :: accountStatus
  paymentRecords :: "paymentRecord list"
  totalPaidAmount :: number
  pendingMonths :: int
  completedMonths :: int
  lastPaymentDate :: "date option"

text \<open>The validators the schemas declare on the fields carried by the model.\<close>

definition paymentMethods :: "string list" where
  "paymentMethods = [''cash'', ''bank_transfer'', ''upi'', ''cheque'', ''card'']"

definition recordValid :: "paymentRecord \<Rightarrow> bool" where
  "recordValid r =
     (monthNumber r \<ge> 1 \<and> amount r \<ge> 0 \<and>
      paymentMethod r \<in> set paymentMethods \<and>
      (case remarks r of None \<Rightarrow> True | Some s \<Rightarrow> length s \<le> 500) \<and>
      lateFee r \<ge> 0)"

definition aadharValid :: "string \<Rightarrow> bool" where
  "aadharValid s = (length s = 12 \<and> list_all (\<lambda>c. c \<in> set ''0123456789'') s)"

definition schemaValid :: "userPayment \<Rightarrow> bool" where
  "schemaValid u =
     (aadharValid (aadharNumber u) \<and> chitAmount u \<ge> 1000 \<and> tenure u \<ge> 1 \<and>
      list_all recordValid (paymentRecords u))"

subsection \<open>The pre-save middleware\<close>

text \<open>
  A number is falsy when it is 0 (or absent); a \<open>Date\<close> object is always truthy, so an
  optional date is falsy only when absent. \<open>startDate\<close> is required and validation runs
  before the middleware, so \<^verbatim>\<open>this.startDate\<close> is truthy there.
\<close>

definition truthy :: "rat option \<Rightarrow> bool" where
  "truthy x = (case x of None \<Rightarrow> False | Some v \<Rightarrow> v \<noteq> 0)"

definition settled :: "paymentRecord \<Rightarrow> bool" where
  "settled record = (recordStatus record = Paid \<or> recordStatus record = Partial)"

definition deriveEndDate :: "userPayment \<Rightarrow> userPayment" where
  "deriveEndDate this =
     (if tenure this \<noteq> 0 \<and> endDate this = None
      then this\<lparr>endDate :=
             Some (setMonth (startDate this) (getMonth (startDate this) + tenure this))\<rparr>
      else this)"

definition deriveMonthlyPremium :: "userPayment \<Rightarrow> userPayment" where
  "deriveMonthlyPremium this =
     (if chitAmount this \<noteq> 0 \<and> tenure this \<noteq> 0 \<and> \<not> truthy (monthlyPremium this)
      then this\<lparr>monthlyPremium := Some (divNumber (chitAmount this) (of_int (tenure this)))\<rparr>
      else this)"

definition sumAmounts :: "paymentRecord list \<Rightarrow> number" where
  "sumAmounts paidRecords =
     foldl (\<lambda>total record. addNumber total (amount record)) (Num 0) paidRecords"

definition latestPayment :: "paymentRecord \<Rightarrow> paymentRecord list \<Rightarrow> paymentRecord" where
  "latestPayment first rest =
     foldl (\<lambda>latest record.
              if date_gt (paymentDate record) (paymentDate latest) then record else latest)
           first rest"

definition updateSummary :: "userPayment \<Rightarrow> userPayment" where
  "updateSummary this =
     (let paidRecords = filter settled (paymentRecords this);
          this1 = this\<lparr>completedMonths := int (length paidRecords)\<rparr>;
          this2 = this1\<lparr>pendingMonths := tenure this1 - completedMonths this1\<rparr>;
          this3 = this2\<lparr>totalPaidAmount := sumAmounts paidRecords\<rparr>
      in case paidRecords of
           [] \<Rightarrow> this3
         | first # rest \<Rightarrow>
             this3\<lparr>lastPaymentDate := Some (paymentDate (latestPayment first rest))\<rparr>)"

definition updateStatus :: "userPayment \<Rightarrow> userPayment" where
  "updateStatus this =
     (if completedMonths this \<ge> tenure this then this\<lparr>status := Completed\<rparr> else this)"

definition pre_save :: "userPayment \<Rightarrow> userPayment" where
  "pre_save this = updateStatus (updateSummary (deriveMonthlyPremium (deriveEndDate this)))"

subsection \<open>The store and \<^verbatim>\<open>save()\<close>\<close>

text \<open>
  The responses of the handlers. The comment gives the HTTP status and the message of
  the source; the lists and numbers are the values interpolated into the message.
\<close>

datatype response =
    NotFound
      \<comment> \<open>404, "User payment account not found"\<close>
  | InvalidMonthNumbers "int list" int
      \<comment> \<open>400, "Invalid month numbers: ... Must be between 1 and tenure" (single payment)\<close>
  | MonthsAlreadyPaid "int list"
      \<comment> \<open>400, "Months already paid: ..." (single payment)\<close>
  | InvalidMonthNumber int int
      \<comment> \<open>400, "Invalid month number: m. Must be between 1 and tenure" (bulk payment)\<close>
  | MonthAlreadyPaid int
      \<comment> \<open>400, "Month m is already paid" (bulk payment)\<close>
  | AadharExists
      \<comment> \<open>400, "Aadhar number already exists" (error code 11000 on create)\<close>
  | BadRequest
      \<comment> \<open>400 with \<^verbatim>\<open>error.message\<close>, from the \<^verbatim>\<open>catch\<close> of a handler\<close>
  | Created userPayment
      \<comment> \<open>201, with the saved document\<close>
  | PaymentRecorded userPayment "int list"
      \<comment> \<open>200, with the saved document and \<^verbatim>\<open>paidMonths\<close>\<close>
  | BulkPaymentRecorded userPayment nat
      \<comment> \<open>200, with the saved document and the number of entries\<close>
  | Updated userPayment
      \<comment> \<open>200, with the updated document\<close>

type_synonym store = "(nat \<times> userPayment) list"

definition findById :: "store \<Rightarrow> nat \<Rightarrow> userPayment option" where
  "findById db docId = map_of db docId"

text \<open>
  \<^verbatim>\<open>doc.save()\<close> on a loaded document: the schema validation is the first pre-save
  hook, the middleware of the model runs after it, then the document is written. A
  validation error rejects, and nothing is written.
\<close>

definition save :: "store \<Rightarrow> nat \<Rightarrow> userPayment \<Rightarrow> response + (userPayment \<times> store)" where
  "save db docId doc =
     (if schemaValid doc
      then (let saved = pre_save doc in Inr (saved, AList.update docId saved db))
      else Inl BadRequest)"

text \<open>
  \<^verbatim>\<open>doc.save()\<close> on a new document: as above, and the unique index on \<open>aadharNumber\<close>
  rejects the insert with error code 11000, which \<^verbatim>\<open>createUserPayment\<close> reports as
  \<open>AadharExists\<close>. The id of the new document is chosen by the driver.
\<close>

definition saveNew :: "store \<Rightarrow> nat \<Rightarrow> userPayment \<Rightarrow> response + (userPayment \<times> store)" where
  "saveNew db newId doc =
     (if schemaValid doc
      then (let saved = pre_save doc
            in if aadharNumber saved \<in> set (map (\<lambda>entry. aadharNumber (snd entry)) db)
               then Inl AadharExists
               else Inr (saved, db @ [(newId, saved)]))
      else Inl BadRequest)"

text \<open>
  The cast of a payment record to a sub-document, as far as it changes the fields
  carried here: the setters of \<open>transactionId\<close> and \<open>remarks\<close> trim them.
\<close>

definition castRecord :: "paymentRecord \<Rightarrow> paymentRecord" where
  "castRecord r = r\<lparr>transactionId := map_option trim (transactionId r),
                     remarks := map_option trim (remarks r)\<rparr>"

subsection \<open>\<^verbatim>\<open>createUserPayment\<close>\<close>

text \<open>
  The request body of a create. A required field that is missing fails the schema
  validation of \<^verbatim>\<open>save()\<close>, which the handler reports as a 400. The payment records
  of the body are given with the defaults of the schema filled in; the constructor of
  the model casts them to sub-documents.
\<close>

record accountData =
  dataAadharNumber :: "string option"
  dataChitAmount :: "rat option"
  dataTenure :: "int option"
  dataMonthlyPremium :: "rat option"
  dataStartDate :: "date option"
  dataEndDate :: "date option"
  dataStatus :: "accountStatus option"
  dataPaymentRecords :: "paymentRecord list"

definition createUserPayment :: "store \<Rightarrow> nat \<Rightarrow> accountData \<Rightarrow> response \<times> store" where
  "createUserPayment db newId body =
     (let data1 =
            (case (dataStartDate body, dataTenure body) of
               (Some start, Some t) \<Rightarrow>
                 if t \<noteq> 0 \<and> dataEndDate body = None
                 then body\<lparr>dataEndDate := Some (setMonth start (getMonth start + t))\<rparr>
                 else body
             | _ \<Rightarrow> body);
          data2 =
            (case (dataChitAmount data1, dataTenure data1) of
               (Some c, Some t) \<Rightarrow>
                 if c \<noteq> 0 \<and> t \<noteq> 0 \<and> \<not> truthy (dataMonthlyPremium data1)
                 then data1\<lparr>dataMonthlyPremium := Some (divNumber c (of_int t))\<rparr>
                 else data1
             | _ \<Rightarrow> data1)
      in case (dataAadharNumber data2, dataChitAmount data2, dataTenure data2,
               dataStartDate data2) of
           (Some aadhar, Some c, Some t, Some start) \<Rightarrow>
             (case saveNew db newId
                     \<lparr>aadharNumber = aadhar, chitAmount = c, tenure = t,
                      monthlyPremium = dataMonthlyPremium data2, startDate = start,
                      endDate = dataEndDate data2,
                      status = (case dataStatus data2 of None \<Rightarrow> Active | Some s \<Rightarrow> s),
                      paymentRecords = map castRecord (dataPaymentRecords data2),
                      totalPaidAmount = Num 0, pendingMonths = t, completedMonths = 0,
                      lastPaymentDate = None\<rparr> of
                Inl err \<Rightarrow> (err, db)
              | Inr (savedUserPayment, db') \<Rightarrow> (Created savedUserPayment, db'))
         | _ \<Rightarrow> (BadRequest, db))"

subsection \<open>\<^verbatim>\<open>recordPayment\<close>\<close>

text \<open>
  The record built for one requested month. \<^verbatim>\<open>paymentDate\<close> and \<^verbatim>\<open>paymentMethod\<close> of
  the request are falsy when absent (or the empty string); pushing the object into
  \<open>paymentRecords\<close> casts it to a sub-document, which trims \<open>transactionId\<close> and
  \<open>remarks\<close> and gives \<open>lateFee\<close> its default 0. The clock is taken to show the same
  instant \<open>now\<close> for every record of one request.
\<close>

definition singleRecord ::
  "userPayment \<Rightarrow> int list \<Rightarrow> rat \<Rightarrow> date option \<Rightarrow> string option \<Rightarrow>
   codeUnits option \<Rightarrow> codeUnits option \<Rightarrow> date \<Rightarrow> int \<Rightarrow> paymentRecord" where
  "singleRecord userPayment monthNumbers amt payDate payMethod txId rmks now mNumber =
     \<lparr>monthNumber = mNumber,
      amount = divNumber amt (of_nat (length monthNumbers)),
      paymentDate = (case payDate of Some d \<Rightarrow> d | None \<Rightarrow> now),
      dueDate = setMonth (startDate userPayment)
                  (getMonth (startDate userPayment) + mNumber - 1),
      recordStatus = Paid,
      paymentMethod = (case payMethod of None \<Rightarrow> ''cash''
                       | Some m \<Rightarrow> if m = [] then ''cash'' else m),
      transactionId = map_option trim txId,
      remarks = map_option trim rmks,
      lateFee = 0\<rparr>"

definition recordPayment ::
  "store \<Rightarrow> nat \<Rightarrow> int list \<Rightarrow> rat \<Rightarrow> date option \<Rightarrow> string option \<Rightarrow>
   codeUnits option \<Rightarrow> codeUnits option \<Rightarrow> date \<Rightarrow> response \<times> store" where
  "recordPayment db docId monthNumbers amt payDate payMethod txId rmks now =
     (case findById db docId of
        None \<Rightarrow> (NotFound, db)
      | Some userPayment \<Rightarrow>
          (let invalidMonths =
                 filter (\<lambda>month. month < 1 \<or> month > tenure userPayment) monthNumbers
           in if length invalidMonths > 0
              then (InvalidMonthNumbers invalidMonths (tenure userPayment), db)
              else
                (let existingMonths =
                       map monthNumber
                         (filter (\<lambda>record. monthNumber record \<in> set monthNumbers \<and>
                                            recordStatus record = Paid)
                                 (paymentRecords userPayment))
                 in if length existingMonths > 0
                    then (MonthsAlreadyPaid existingMonths, db)
                    else
                      (let newRecords =
                             map (singleRecord userPayment monthNumbers amt payDate payMethod
                                    txId rmks now) monthNumbers;
                           pushed = userPayment\<lparr>paymentRecords :=
                                      paymentRecords userPayment @ newRecords\<rparr>
                       in case save db docId pushed of
                            Inl err \<Rightarrow> (err, db)
                          | Inr (updatedUserPayment, db') \<Rightarrow>
                              (PaymentRecorded updatedUserPayment monthNumbers, db')))))"

subsection \<open>\<^verbatim>\<open>recordBulkPayment\<close>\<close>

record bulkPayment =
  payMonthNumber :: int
  payAmount :: rat
  payPaymentDate :: "date option"
  payPaymentMethod :: "string option"
  payTransactionId :: "codeUnits option"
  payRemarks :: "codeUnits option"
  payLateFee :: "rat option"

text \<open>The validation loop: it returns the response of the first entry that fails.\<close>

fun validatePayments :: "userPayment \<Rightarrow> bulkPayment list \<Rightarrow> response option" where
  "validatePayments userPayment [] = None"
| "validatePayments userPayment (payment # rest) =
     (if payMonthNumber payment < 1 \<or> payMonthNumber payment > tenure userPayment
      then Some (InvalidMonthNumber (payMonthNumber payment) (tenure userPayment))
      else (case find (\<lambda>record. monthNumber record = payMonthNumber payment \<and>
                                 recordStatus record = Paid)
                      (paymentRecords userPayment) of
              Some existingPayment \<Rightarrow> Some (MonthAlreadyPaid (payMonthNumber payment))
            | None \<Rightarrow> validatePayments userPayment rest))"

definition bulkRecord :: "userPayment \<Rightarrow> date \<Rightarrow> bulkPayment \<Rightarrow> paymentRecord" where
  "bulkRecord userPayment now payment =
     \<lparr>monthNumber = payMonthNumber payment,
      amount = payAmount payment,
      paymentDate = (case payPaymentDate payment of Some d \<Rightarrow> d | None \<Rightarrow> now),
      dueDate = setMonth (startDate userPayment)
                  (getMonth (startDate userPayment) + payMonthNumber payment - 1),
      recordStatus = Paid,
      paymentMethod = (case payPaymentMethod payment of None \<Rightarrow> ''cash''
                       | Some m \<Rightarrow> if m = [] then ''cash'' else m),
      transactionId = map_option trim (payTransactionId payment),
      remarks = map_option trim (payRemarks payment),
      lateFee = (if truthy (payLateFee payment) then the (payLateFee payment) else 0)\<rparr>"

definition recordBulkPayment ::
  "store \<Rightarrow> nat \<Rightarrow> bulkPayment list \<Rightarrow> date \<Rightarrow> response \<times> store" where
  "recordBulkPayment db docId payments now =
     (case findById db docId of
        None \<Rightarrow> (NotFound, db)
      | Some userPayment \<Rightarrow>
          (case validatePayments userPayment payments of
             Some err \<Rightarrow> (err, db)
           | None \<Rightarrow>
               (let newRecords = map (bulkRecord userPayment now) payments;
                    pushed = userPayment\<lparr>paymentRecords :=
                               paymentRecords userPayment @ newRecords\<rparr>
                in case save db docId pushed of
                     Inl err \<Rightarrow> (err, db)
                   | Inr (updatedUserPayment, db') \<Rightarrow>
                       (BulkPaymentRecorded updatedUserPayment (length payments), db'))))"

subsection \<open>\<^verbatim>\<open>updateUserPayment\<close>\<close>

text \<open>
  The request body of the update is a free-form patch: a list of field assignments,
  which \<^verbatim>\<open>findByIdAndUpdate\<close> applies to the stored document as a \<^verbatim>\<open>$set\<close>. The
  patch is cast to the schema first (patched payment records become sub-documents), and
  with \<^verbatim>\<open>runValidators: true\<close> the validators of the assigned fields run on the cast
  values; a patch that fails them is rejected before the store is asked for the
  document. \<^verbatim>\<open>findByIdAndUpdate\<close> is a query: the document middleware registered with
  \<^verbatim>\<open>pre("save")\<close> does not run for it. The unique index rejects an \<open>aadharNumber\<close>
  that another document holds.
\<close>

datatype fieldUpdate =
    SetAadharNumber string
  | SetChitAmount rat
  | SetTenure int
  | SetMonthlyPremium rat
  | SetStartDate date
  | SetEndDate date
  | SetStatus accountStatus
  | SetPaymentRecords "paymentRecord list"
  | SetTotalPaidAmount rat
  | SetPendingMonths int
  | SetCompletedMonths int
  | SetLastPaymentDate date

fun castUpdate :: "fieldUpdate \<Rightarrow> fieldUpdate" where
  "castUpdate (SetPaymentRecords v) = SetPaymentRecords (map castRecord v)"
| "castUpdate upd = upd"

fun applyUpdate :: "userPayment \<Rightarrow> fieldUpdate \<Rightarrow> userPayment" where
  "applyUpdate u (SetAadharNumber v) = u\<lparr>aadharNumber := v\<rparr>"
| "applyUpdate u (SetChitAmount v) = u\<lparr>chitAmount := v\<rparr>"
| "applyUpdate u (SetTenure v) = u\<lparr>tenure := v\<rparr>"
| "applyUpdate u (SetMonthlyPremium v) = u\<lparr>monthlyPremium := Some v\<rparr>"
| "applyUpdate u (SetStartDate v) = u\<lparr>startDate := v\<rparr>"
| "applyUpdate u (SetEndDate v) = u\<lparr>endDate := Some v\<rparr>"
| "applyUpdate u (SetStatus v) = u\<lparr>status := v\<rparr>"
| "applyUpdate u (SetPaymentRecords v) = u\<lparr>paymentRecords := v\<rparr>"
| "applyUpdate u (SetTotalPaidAmount v) = u\<lparr>totalPaidAmount := Num v\<rparr>"
| "applyUpdate u (SetPendingMonths v) = u\<lparr>pendingMonths := v\<rparr>"
| "applyUpdate u (SetCompletedMonths v) = u\<lparr>completedMonths := v\<rparr>"
| "applyUpdate u (SetLastPaymentDate v) = u\<lparr>lastPaymentDate := Some v\<rparr>"

fun updateValid :: "fieldUpdate \<Rightarrow> bool" where
  "updateValid (SetAadharNumber v) = aadharValid v"
| "updateValid (SetChitAmount v) = (v \<ge> 1000)"
| "updateValid (SetTenure v) = (v \<ge> 1)"
| "updateValid (SetPaymentRecords v) = list_all recordValid v"
| "updateValid _ = True"

definition updateUserPayment :: "store \<Rightarrow> nat \<Rightarrow> fieldUpdate list \<Rightarrow> response \<times> store" where
  "updateUserPayment db docId body =
     (let patch = map castUpdate body
      in if \<not> list_all updateValid patch then (BadRequest, db)
         else
           (case findById db docId of
              None \<Rightarrow> (NotFound, db)
            | Some stored \<Rightarrow>
                (let userPayment = foldl applyUpdate stored patch
                 in if aadharNumber userPayment
                         \<in> set (map (\<lambda>entry. aadharNumber (snd entry))
                                   (filter (\<lambda>entry. fst entry \<noteq> docId) db))
                    then (BadRequest, db)
                    else (Updated userPayment, AList.update docId userPayment db))))"

subsection \<open>Sequences of payment applications\<close>

text \<open>
  A payment application is one request to \<^verbatim>\<open>recordPayment\<close> or to
  \<^verbatim>\<open>recordBulkPayment\<close>; \<open>applyAll\<close> is the store after a sequence of them on one
  account (a rejected request leaves the store as it was, and the next one is served).
\<close>

datatype application =
    Single "int list" rat "date option" "string option" "codeUnits option" "codeUnits option"
      date
  | Bulk "bulkPayment list" date

fun applyPayment :: "store \<Rightarrow> nat \<Rightarrow> application \<Rightarrow> store" where
  "applyPayment db docId (Single monthNumbers amt payDate payMethod txId rmks now) =
     snd (recordPayment db docId monthNumbers amt payDate payMethod txId rmks now)"
| "applyPayment db docId (Bulk payments now) = snd (recordBulkPayment db docId payments now)"

fun applyAll :: "store \<Rightarrow> nat \<Rightarrow> application list \<Rightarrow> store" where
  "applyAll db docId [] = db"
| "applyAll db docId (app # apps) = applyAll (applyPayment db docId app) docId apps"

subsection \<open>Reading the specification\<close>

text \<open>
  "\<open>d\<close> plus \<open>k\<close> months", as the source computes it everywhere:
  \<^verbatim>\<open>x = new Date(d); x.setMonth(x.getMonth() + k)\<close>.
\<close>

definition addMonths :: "date \<Rightarrow> int \<Rightarrow> date" where
  "addMonths d k = setMonth d (getMonth d + k)"

text \<open>
  The cached summary of a document agrees with its payment records: every summary field
  has the value that the derivation computes from the records.
\<close>

definition summaryConsistent :: "userPayment \<Rightarrow> bool" where
  "summaryConsistent u =
     (let paidRecords = filter settled (paymentRecords u)
      in completedMonths u = int (length paidRecords) \<and>
         pendingMonths u = tenure u - int (length paidRecords) \<and>
         totalPaidAmount u = sumAmounts paidRecords \<and>
         (case paidRecords of
            [] \<Rightarrow> True
          | first # rest \<Rightarrow>
              lastPaymentDate u = Some (paymentDate (latestPayment first rest))) \<and>
         (if int (length paidRecords) \<ge> tenure u then status u = Completed else True))"

subsection \<open>Example data\<close>

text \<open>
  The account of the end-to-end example: start date 2024-01-01, chit amount 12000,
  tenure 12.
\<close>

definition jan1 :: date where
  "jan1 = \<lparr>getFullYear = 2024, getMonth = 0, getDate = 1, getTimeInDay = 0\<rparr>"

definition mar15 :: date where
  "mar15 = \<lparr>getFullYear = 2024, getMonth = 2, getDate = 15, getTimeInDay = 36000000\<rparr>"

definition exampleBody :: accountData where
  "exampleBody =
     \<lparr>dataAadharNumber = Some ''123456789012'', dataChitAmount = Some 12000,
      dataTenure = Some 12, dataMonthlyPremium = None, dataStartDate = Some jan1,
      dataEndDate = None, dataStatus = None, dataPaymentRecords = []\<rparr>"

definition exampleAccount :: userPayment where
  "exampleAccount =
     \<lparr>aadharNumber = ''123456789012'', chitAmount = 12000, tenure = 12,
      monthlyPremium = Some 1000, startDate = jan1,
      endDate = Some \<lparr>getFullYear = 2025, getMonth = 0, getDate = 1, getTimeInDay = 0\<rparr>,
      status = Active, paymentRecords = [],
      totalPaidAmount = Num 0, pendingMonths = 12, completedMonths = 0,
      lastPaymentDate = None\<rparr>"

definition paidRecord :: "int \<Rightarrow> rat \<Rightarrow> paymentRecord" where
  "paidRecord m a =
     \<lparr>monthNumber = m, amount = a, paymentDate = mar15, dueDate = addMonths jan1 (m - 1),
      recordStatus = Paid, paymentMethod = ''cash'', transactionId = None, remarks = None,
      lateFee = 0\<rparr>"

definition pendingRecord :: "int \<Rightarrow> paymentRecord" where
  "pendingRecord m = (paidRecord m 0)\<lparr>recordStatus := Pending\<rparr>"

definition twoPaid :: userPayment where
  "twoPaid = exampleAccount\<lparr>paymentRecords :=
               [paidRecord 1 1000, pendingRecord 3, paidRecord 2 1000]\<rparr>"

definition cancelledFull :: userPayment where
  "cancelledFull = exampleAccount\<lparr>tenure := 2, status := Cancelled,
                     paymentRecords := [paidRecord 1 6000, paidRecord 2 6000]\<rparr>"

definition zeroPremium :: userPayment where
  "zeroPremium = exampleAccount\<lparr>monthlyPremium := Some 0\<rparr>"

definition ownTerms :: userPayment where
  "ownTerms = exampleAccount\<lparr>monthlyPremium := Some 900, endDate := Some mar15\<rparr>"

definition noTerms :: userPayment where
  "noTerms = exampleAccount\<lparr>monthlyPremium := None, endDate := None\<rparr>"

definition paidJanuary :: userPayment where
  "paidJanuary = exampleAccount\<lparr>paymentRecords := [paidRecord 1 1000]\<rparr>"

definition bulkEntry :: "int \<Rightarrow> rat \<Rightarrow> rat option \<Rightarrow> bulkPayment" where
  "bulkEntry m a fee =
     \<lparr>payMonthNumber = m, payAmount = a, payPaymentDate = None, payPaymentMethod = None,
      payTransactionId = None, payRemarks = None, payLateFee = fee\<rparr>"

definition sameMonthTwice :: "bulkPayment list" where
  "sameMonthTwice = [bulkEntry 3 100 None, bulkEntry 3 200 (Some 25)]"

definition oneOutOfRange :: "bulkPayment list" where
  "oneOutOfRange = [bulkEntry 3 100 None, bulkEntry 13 200 None]"

definition dupJanuary :: userPayment where
  "dupJanuary = exampleAccount\<lparr>tenure := 2,
                  paymentRecords := [paidRecord 1 6000, paidRecord 1 6000]\<rparr>"

definition staleAccount :: userPayment where
  "staleAccount = (pre_save twoPaid)\<lparr>tenure := 24, totalPaidAmount := Num 999\<rparr>"

text \<open>An account with a paid record of \<open>2\<^sup>5\<^sup>3\<close> and a paid record of 1.\<close>

definition bigFirst :: userPayment where
  "bigFirst = exampleAccount\<lparr>paymentRecords :=
                [paidRecord 1 9007199254740992, paidRecord 2 1]\<rparr>"

section \<open>Properties of the derivation pass\<close>

lemma floor_numeral_div: "\<lfloor>(numeral a :: rat) / numeral b\<rfloor> = numeral a div numeral b"
  using floor_divide_of_int_eq [of "numeral a" "numeral b", where ?'a = rat] by simp

lemma ilog2_upper: "n < 2 ^ Suc k \<Longrightarrow> ilog2 n \<le> k"
proof (induction k arbitrary: n)
  case 0
  then show ?case by (simp add: ilog2.simps)
next
  case (Suc k)
  show ?case
  proof (cases "n < 2")
    case True
    then show ?thesis by (simp add: ilog2.simps)
  next
    case False
    from Suc.prems have "n div 2 < 2 ^ Suc k"
      by simp
    then have "ilog2 (n div 2) \<le> k"
      by (rule Suc.IH)
    with False show ?thesis
      by (subst ilog2.simps) simp
  qed
qed

lemma roundHalfEven_of_int: "roundHalfEven (of_int k) = k"
  by (simp add: roundHalfEven_def Let_def)

lemma pow2_neg: "pow2 (- int k) = 1 / 2 ^ k"
  by (cases k) (simp_all add: pow2_def del: of_nat_Suc)

lemma round64r_pos_int:
  assumes "0 < a" and "a < 2 ^ 53"
  shows "round64r (of_int a) = of_int a"
proof -
  define l where "l = ilog2 a"
  have "a < 2 ^ Suc 52"
    using assms by simp
  then have l: "l \<le> 52"
    unfolding l_def by (rule ilog2_upper)
  have pos: "(0::rat) < of_int a"
    using assms(1) by simp
  then have abs: "\<bar>of_int a :: rat\<bar> = of_int a"
    by simp
  have fl: "floorLog2 (of_int a) = int l"
    using assms by (simp add: floorLog2_def l_def)
  have "max (floorLog2 (of_int a)) (- 1022) - 52 = - int (52 - l)"
    using l fl by simp
  then have qeq: "pow2 (max (floorLog2 (of_int a)) (- 1022) - 52) = 1 / 2 ^ (52 - l)"
    by (simp only: pow2_neg)
  have "(of_int a :: rat) / (1 / 2 ^ (52 - l)) = of_int (a * 2 ^ (52 - l))"
    by simp
  then have rhe: "roundHalfEven (of_int a / (1 / 2 ^ (52 - l))) = a * 2 ^ (52 - l)"
    by (simp only: roundHalfEven_of_int)
  have "round64r (of_int a) = of_int (a * 2 ^ (52 - l)) * (1 / 2 ^ (52 - l))"
    unfolding round64r_def Let_def abs qeq rhe using pos by simp
  then show ?thesis by simp
qed

lemma round64r_of_int:
  assumes "\<bar>n\<bar> < 2 ^ 53"
  shows "round64r (of_int n) = of_int n"
proof (cases "n = 0")
  case True
  then show ?thesis by (simp add: round64r_def)
next
  case False
  have neg: "round64r (- x) = - round64r x" for x
    by (simp add: round64r_def Let_def)
  show ?thesis
  proof (cases "0 < n")
    case True
    with assms show ?thesis by (simp add: round64r_pos_int)
  next
    case False
    with \<open>n \<noteq> 0\<close> assms have "0 < - n" "- n < 2 ^ 53" by simp_all
    then have "round64r (of_int (- n)) = of_int (- n)"
      by (rule round64r_pos_int)
    then show ?thesis
      using neg [of "of_int n"] by simp
  qed
qed

lemma pow2_1024: "pow2 1024 = 2 ^ 1024"
  by (simp add: pow2_def)

lemma round64_of_int:
  assumes "\<bar>n\<bar> < 2 ^ 53"
  shows "round64 (of_int n) = Num (of_int n)"
proof -
  have "(2::rat) ^ 53 < 2 ^ 1024"
    by (rule power_strict_increasing) simp_all
  moreover have "\<bar>(of_int n :: rat)\<bar> < 2 ^ 53"
    using assms by (metis of_int_abs of_int_less_iff of_int_numeral of_int_power)
  ultimately have "(of_int n :: rat) < 2 ^ 1024" "- (2 ^ 1024) < (of_int n :: rat)"
    by linarith+
  then show ?thesis
    by (simp add: round64_def round64r_of_int [OF assms] pow2_1024)
qed

lemma round64_two53: "round64 9007199254740992 = Num 9007199254740992"
proof -
  have "round64r 9007199254740992 = 9007199254740992"
    by (simp add: round64r_def floorLog2_def ilog2.simps pow2_def roundHalfEven_def Let_def
        floor_numeral_div)
  moreover have "(9007199254740992::rat) < 2 ^ 1024"
    by simp
  ultimately show ?thesis
    by (simp add: round64_def pow2_1024)
qed

lemma round64_tie: "round64 9007199254740993 = Num 9007199254740992"
proof -
  have "round64r 9007199254740993 = 9007199254740992"
    by (simp add: round64r_def floorLog2_def ilog2.simps pow2_def roundHalfEven_def Let_def
        floor_numeral_div)
  moreover have "(9007199254740992::rat) < 2 ^ 1024"
    by simp
  ultimately show ?thesis
    by (simp add: round64_def pow2_1024)
qed

lemma divNumber_examples: "divNumber 1200 3 = 400" "divNumber 12000 12 = 1000"
  using round64r_of_int [of 400] round64r_of_int [of 1000] by (simp_all add: divNumber_def)

text \<open>
  On non-negative whole amounts whose sum stays below \<open>2\<^sup>5\<^sup>3\<close> no addition rounds.
\<close>

lemma sum_list_nat_amounts:
  "\<forall>r\<in>set rs. \<exists>n::nat. amount r = of_nat n \<Longrightarrow>
     \<exists>k::nat. sum_list (map amount rs) = of_nat k"
proof (induction rs)
  case Nil
  show ?case by (rule exI [of _ 0]) simp
next
  case (Cons r rs)
  then obtain n k :: nat where "amount r = of_nat n" "sum_list (map amount rs) = of_nat k"
    by auto
  then have "sum_list (map amount (r # rs)) = of_nat (n + k)"
    by simp
  then show ?case by blast
qed

lemma foldl_addNumber_nat:
  "\<forall>r\<in>set rs. \<exists>n::nat. amount r = of_nat n \<Longrightarrow>
   of_nat m + sum_list (map amount rs) < 2 ^ 53 \<Longrightarrow>
   foldl (\<lambda>total record. addNumber total (amount record)) (Num (of_nat m)) rs =
     Num (of_nat m + sum_list (map amount rs))"
proof (induction rs arbitrary: m)
  case Nil
  show ?case by simp
next
  case (Cons r rs)
  from Cons.prems(1) obtain n :: nat where n: "amount r = of_nat n"
    by auto
  from Cons.prems(1) have rest: "\<forall>r\<in>set rs. \<exists>n::nat. amount r = of_nat n"
    by simp
  then obtain k :: nat where k: "sum_list (map amount rs) = of_nat k"
    using sum_list_nat_amounts by blast
  from Cons.prems(2) n k have "(of_nat (m + n + k) :: rat) < 2 ^ 53"
    by (simp add: add.assoc)
  then have bound: "m + n + k < 2 ^ 53"
    by (metis of_nat_less_iff of_nat_numeral of_nat_power)
  then have "\<bar>int (m + n)\<bar> < 2 ^ 53"
    by simp
  then have "round64 (of_int (int (m + n))) = Num (of_int (int (m + n)))"
    by (rule round64_of_int)
  then have step: "addNumber (Num (of_nat m)) (amount r) = Num (of_nat (m + n))"
    by (simp add: n)
  have "of_nat (m + n) + sum_list (map amount rs) < (2::rat) ^ 53"
    using Cons.prems(2) n by (simp add: add.assoc)
  from Cons.IH [OF rest this] step n show ?case
    by (simp add: add.assoc)
qed

lemma sumAmounts_exact:
  assumes "\<forall>r\<in>set rs. \<exists>n::nat. amount r = of_nat n"
    and "sum_list (map amount rs) < 2 ^ 53"
  shows "sumAmounts rs = Num (sum_list (map amount rs))"
  using foldl_addNumber_nat [of rs 0] assms by (simp add: sumAmounts_def)

text \<open>What each stage of the middleware leaves alone, and what it writes.\<close>

lemma deriveEndDate_frame:
  "tenure (deriveEndDate a) = tenure a"
  "chitAmount (deriveEndDate a) = chitAmount a"
  "monthlyPremium (deriveEndDate a) = monthlyPremium a"
  "paymentRecords (deriveEndDate a) = paymentRecords a"
  "status (deriveEndDate a) = status a"
  "lastPaymentDate (deriveEndDate a) = lastPaymentDate a"
  "startDate (deriveEndDate a) = startDate a"
  "aadharNumber (deriveEndDate a) = aadharNumber a"
  by (simp_all add: deriveEndDate_def)

lemma deriveMonthlyPremium_frame:
  "tenure (deriveMonthlyPremium a) = tenure a"
  "chitAmount (deriveMonthlyPremium a) = chitAmount a"
  "endDate (deriveMonthlyPremium a) = endDate a"
  "paymentRecords (deriveMonthlyPremium a) = paymentRecords a"
  "status (deriveMonthlyPremium a) = status a"
  "lastPaymentDate (deriveMonthlyPremium a) = lastPaymentDate a"
  "startDate (deriveMonthlyPremium a) = startDate a"
  "aadharNumber (deriveMonthlyPremium a) = aadharNumber a"
  by (simp_all add: deriveMonthlyPremium_def)

lemma updateSummary_frame:
  "tenure (updateSummary a) = tenure a"
  "chitAmount (updateSummary a) = chitAmount a"
  "endDate (updateSummary a) = endDate a"
  "monthlyPremium (updateSummary a) = monthlyPremium a"
  "paymentRecords (updateSummary a) = paymentRecords a"
  "status (updateSummary a) = status a"
  "startDate (updateSummary a) = startDate a"
  "aadharNumber (updateSummary a) = aadharNumber a"
  by (simp_all add: updateSummary_def Let_def split: list.splits)

lemma updateSummary_fields:
  "completedMonths (updateSummary a) = int (length (filter settled (paymentRecords a)))"
  "pendingMonths (updateSummary a) = tenure a - int (length (filter settled (paymentRecords a)))"
  "totalPaidAmount (updateSummary a) = sumAmounts (filter settled (paymentRecords a))"
  "lastPaymentDate (updateSummary a) =
     (case filter settled (paymentRecords a) of
        [] \<Rightarrow> lastPaymentDate a
      | first # rest \<Rightarrow> Some (paymentDate (latestPayment first rest)))"
  by (simp_all add: updateSummary_def Let_def split: list.splits)

lemma updateStatus_frame:
  "tenure (updateStatus a) = tenure a"
  "chitAmount (updateStatus a) = chitAmount a"
  "endDate (updateStatus a) = endDate a"
  "monthlyPremium (updateStatus a) = monthlyPremium a"
  "paymentRecords (updateStatus a) = paymentRecords a"
  "lastPaymentDate (updateStatus a) = lastPaymentDate a"
  "completedMonths (updateStatus a) = completedMonths a"
  "pendingMonths (updateStatus a) = pendingMonths a"
  "totalPaidAmount (updateStatus a) = totalPaidAmount a"
  "startDate (updateStatus a) = startDate a"
  "aadharNumber (updateStatus a) = aadharNumber a"
  by (simp_all add: updateStatus_def)

lemmas stage_frames = deriveEndDate_frame deriveMonthlyPremium_frame updateSummary_frame
  updateStatus_frame

lemma endDate_pre_save:
  "endDate (pre_save a) =
     (if tenure a \<noteq> 0 \<and> endDate a = None
      then Some (setMonth (startDate a) (getMonth (startDate a) + tenure a))
      else endDate a)"
  by (simp add: pre_save_def stage_frames) (simp add: deriveEndDate_def)

lemma monthlyPremium_pre_save:
  "monthlyPremium (pre_save a) =
     (if chitAmount a \<noteq> 0 \<and> tenure a \<noteq> 0 \<and> \<not> truthy (monthlyPremium a)
      then Some (divNumber (chitAmount a) (of_int (tenure a)))
      else monthlyPremium a)"
  by (simp add: pre_save_def stage_frames) (simp add: deriveMonthlyPremium_def stage_frames)

lemma status_pre_save:
  "status (pre_save a) =
     (if int (length (filter settled (paymentRecords a))) \<ge> tenure a then Completed
      else status a)"
  by (simp add: pre_save_def updateStatus_def updateSummary_fields stage_frames)

lemma lastPaymentDate_pre_save:
  "lastPaymentDate (pre_save a) =
     (case filter settled (paymentRecords a) of
        [] \<Rightarrow> lastPaymentDate a
      | first # rest \<Rightarrow> Some (paymentDate (latestPayment first rest)))"
  by (simp add: pre_save_def updateSummary_fields stage_frames split: list.splits)

lemma frame_pre_save:
  "aadharNumber (pre_save a) = aadharNumber a"
  "chitAmount (pre_save a) = chitAmount a"
  "startDate (pre_save a) = startDate a"
  "tenure (pre_save a) = tenure a"
  "paymentRecords (pre_save a) = paymentRecords a"
  by (simp_all add: pre_save_def stage_frames)

lemma summary_pre_save:
  "completedMonths (pre_save a) = int (length (filter settled (paymentRecords a)))"
  "pendingMonths (pre_save a) = tenure a - int (length (filter settled (paymentRecords a)))"
  "totalPaidAmount (pre_save a) = sumAmounts (filter settled (paymentRecords a))"
  by (simp_all add: pre_save_def updateSummary_fields stage_frames)


lemma pre_save_idem: "pre_save (pre_save a) = pre_save a"
proof (rule userPayment.equality)
  show "endDate (pre_save (pre_save a)) = endDate (pre_save a)"
    by (simp add: endDate_pre_save frame_pre_save)
  show "monthlyPremium (pre_save (pre_save a)) = monthlyPremium (pre_save a)"
    by (simp add: monthlyPremium_pre_save frame_pre_save truthy_def)
  show "status (pre_save (pre_save a)) = status (pre_save a)"
    by (simp add: status_pre_save frame_pre_save)
  show "lastPaymentDate (pre_save (pre_save a)) = lastPaymentDate (pre_save a)"
    by (simp add: lastPaymentDate_pre_save frame_pre_save split: list.splits)
qed (simp_all add: frame_pre_save summary_pre_save)

lemma settled_eq: "settled = (\<lambda>r. recordStatus r = Paid \<or> recordStatus r = Partial)"
  by (rule ext) (simp add: settled_def)

lemma summaryConsistent_pre_save: "summaryConsistent (pre_save a)"
  by (simp add: summaryConsistent_def Let_def summary_pre_save frame_pre_save
      lastPaymentDate_pre_save status_pre_save split: list.splits)

section \<open>Properties of the handlers\<close>

lemma findById_update: "findById (AList.update k v db) k = Some v"
  by (simp add: findById_def update_conv')

lemma save_cases:
  "save db k doc = Inl BadRequest \<and> \<not> schemaValid doc \<or>
   save db k doc = Inr (pre_save doc, AList.update k (pre_save doc) db) \<and> schemaValid doc"
  by (simp add: save_def Let_def)

lemma out_of_range_filter:
  "filter (\<lambda>month. month < 1 \<or> month > (t::int)) ms = filter (\<lambda>m. \<not> (1 \<le> m \<and> m \<le> t)) ms"
  by (rule filter_cong) auto

lemma singleRecord_eq:
  "singleRecord u monthNumbers amt payDate payMethod txId rmks now =
     (\<lambda>m. \<lparr>monthNumber = m,
           amount = divNumber amt (of_nat (length monthNumbers)),
           paymentDate = (case payDate of None \<Rightarrow> now | Some d \<Rightarrow> d),
           dueDate = addMonths (startDate u) (m - 1),
           recordStatus = Paid,
           paymentMethod = (case payMethod of None \<Rightarrow> ''cash''
                            | Some x \<Rightarrow> if x = [] then ''cash'' else x),
           transactionId = map_option trim txId,
           remarks = map_option trim rmks,
           lateFee = 0\<rparr>)"
  by (rule ext) (simp add: singleRecord_def addMonths_def algebra_simps split: option.splits)

lemma recordPayment_success:
  assumes "findById db docId = Some u"
    and "recordPayment db docId monthNumbers amt payDate payMethod txId rmks now =
           (PaymentRecorded saved paid, db')"
  shows "saved = pre_save (u\<lparr>paymentRecords := paymentRecords u @
                     map (singleRecord u monthNumbers amt payDate payMethod txId rmks now)
                         monthNumbers\<rparr>) \<and>
         db' = AList.update docId saved db \<and> paid = monthNumbers"
  using assms save_cases [of db docId "u\<lparr>paymentRecords := paymentRecords u @
                     map (singleRecord u monthNumbers amt payDate payMethod txId rmks now)
                         monthNumbers\<rparr>"]
  by (auto simp add: recordPayment_def Let_def split: if_splits)

lemma exampleAccount_fields:
  "tenure exampleAccount = 12" "paymentRecords exampleAccount = []"
  "startDate exampleAccount = jan1" "aadharNumber exampleAccount = ''123456789012''"
  "chitAmount exampleAccount = 12000"
  by (simp_all add: exampleAccount_def)

lemma addMonths_jan1:
  "addMonths jan1 0 = jan1"
  "addMonths jan1 1 = jan1\<lparr>getMonth := 1\<rparr>"
  "addMonths jan1 2 = jan1\<lparr>getMonth := 2\<rparr>"
  by (simp_all add: addMonths_def setMonth_def jan1_def daysInMonth_def isLeapYear_def Let_def)

lemma validatePayments_None_iff:
  "validatePayments u ps = None \<longleftrightarrow>
     (\<forall>p\<in>set ps. 1 \<le> payMonthNumber p \<and> payMonthNumber p \<le> tenure u \<and>
        (\<forall>r\<in>set (paymentRecords u).
           monthNumber r = payMonthNumber p \<longrightarrow> recordStatus r \<noteq> Paid))"
proof (induction ps)
  case Nil
  show ?case by simp
next
  case (Cons p ps)
  show ?case
  proof (cases "payMonthNumber p < 1 \<or> payMonthNumber p > tenure u")
    case True
    then show ?thesis by auto
  next
    case False
    show ?thesis
    proof (cases "find (\<lambda>record. monthNumber record = payMonthNumber p \<and>
                                   recordStatus record = Paid) (paymentRecords u)")
      case None
      then have "\<forall>r\<in>set (paymentRecords u).
                   monthNumber r = payMonthNumber p \<longrightarrow> recordStatus r \<noteq> Paid"
        by (auto simp add: find_None_iff)
      with False None Cons.IH show ?thesis by simp
    next
      case (Some r)
      then have "r \<in> set (paymentRecords u) \<and> monthNumber r = payMonthNumber p \<and>
                 recordStatus r = Paid"
        by (auto simp add: find_Some_iff)
      with False Some show ?thesis by auto
    qed
  qed
qed

lemma validatePayments_Some:
  "validatePayments u ps = Some e \<Longrightarrow>
     \<exists>p\<in>set ps. e = InvalidMonthNumber (payMonthNumber p) (tenure u) \<or>
                 e = MonthAlreadyPaid (payMonthNumber p)"
  by (induction ps) (auto split: if_splits option.splits)

lemma bulkRecord_eq:
  "bulkRecord u now =
     (\<lambda>p. \<lparr>monthNumber = payMonthNumber p,
           amount = payAmount p,
           paymentDate = (case payPaymentDate p of None \<Rightarrow> now | Some d \<Rightarrow> d),
           dueDate = addMonths (startDate u) (payMonthNumber p - 1),
           recordStatus = Paid,
           paymentMethod = (case payPaymentMethod p of None \<Rightarrow> ''cash''
                            | Some x \<Rightarrow> if x = [] then ''cash'' else x),
           transactionId = map_option trim (payTransactionId p),
           remarks = map_option trim (payRemarks p),
           lateFee = (case payLateFee p of None \<Rightarrow> 0 | Some fee \<Rightarrow> fee)\<rparr>)"
  by (rule ext)
     (simp add: bulkRecord_def addMonths_def truthy_def algebra_simps split: option.splits)

lemma recordBulkPayment_cases:
  assumes "findById db docId = Some u"
  shows "(\<exists>e. validatePayments u payments = Some e \<and>
              recordBulkPayment db docId payments now = (e, db)) \<or>
         (validatePayments u payments = None \<and>
          \<not> schemaValid (u\<lparr>paymentRecords := paymentRecords u @
                             map (bulkRecord u now) payments\<rparr>) \<and>
          recordBulkPayment db docId payments now = (BadRequest, db)) \<or>
         (validatePayments u payments = None \<and>
          schemaValid (u\<lparr>paymentRecords := paymentRecords u @
                           map (bulkRecord u now) payments\<rparr>) \<and>
          recordBulkPayment db docId payments now =
            (BulkPaymentRecorded
               (pre_save (u\<lparr>paymentRecords := paymentRecords u @
                                map (bulkRecord u now) payments\<rparr>))
               (length payments),
             AList.update docId
               (pre_save (u\<lparr>paymentRecords := paymentRecords u @
                                map (bulkRecord u now) payments\<rparr>)) db))"
  using assms
  by (cases "validatePayments u payments")
     (simp_all add: recordBulkPayment_def save_def Let_def)

lemma recordPayment_cases:
  assumes "findById db docId = Some u"
  shows "snd (recordPayment db docId monthNumbers amt payDate payMethod txId rmks now) = db \<or>
         snd (recordPayment db docId monthNumbers amt payDate payMethod txId rmks now) =
           AList.update docId
             (pre_save (u\<lparr>paymentRecords := paymentRecords u @
                 map (singleRecord u monthNumbers amt payDate payMethod txId rmks now)
                     monthNumbers\<rparr>)) db"
  using assms by (simp add: recordPayment_def save_def Let_def)

text \<open>
  Once the settled records of a document have reached its tenure, every payment
  application keeps it so, and the derivation pass of its \<^verbatim>\<open>save()\<close> sets or keeps
  the status completed.
\<close>

lemma completed_push:
  assumes "tenure x \<le> int (length (filter settled (paymentRecords x)))"
  shows "status (pre_save (x\<lparr>paymentRecords := paymentRecords x @ new\<rparr>)) = Completed \<and>
         tenure (pre_save (x\<lparr>paymentRecords := paymentRecords x @ new\<rparr>))
           \<le> completedMonths (pre_save (x\<lparr>paymentRecords := paymentRecords x @ new\<rparr>)) \<and>
         tenure (pre_save (x\<lparr>paymentRecords := paymentRecords x @ new\<rparr>))
           \<le> int (length (filter settled
                 (paymentRecords (pre_save (x\<lparr>paymentRecords := paymentRecords x @ new\<rparr>)))))"
  using assms by (simp add: status_pre_save summary_pre_save frame_pre_save)

lemma completed_step:
  assumes "findById db docId = Some x"
    and "status x = Completed"
    and "tenure x \<le> completedMonths x"
    and "tenure x \<le> int (length (filter settled (paymentRecords x)))"
  shows "\<exists>x'. findById (applyPayment db docId app) docId = Some x' \<and>
              status x' = Completed \<and> tenure x' \<le> completedMonths x' \<and>
              tenure x' \<le> int (length (filter settled (paymentRecords x')))"
proof (cases app)
  case (Single monthNumbers amt payDate payMethod txId rmks now)
  from recordPayment_cases [OF assms(1), of monthNumbers amt payDate payMethod txId rmks now]
  show ?thesis
  proof
    assume "snd (recordPayment db docId monthNumbers amt payDate payMethod txId rmks now) = db"
    with Single assms show ?thesis by simp
  next
    assume "snd (recordPayment db docId monthNumbers amt payDate payMethod txId rmks now) =
           AList.update docId
             (pre_save (x\<lparr>paymentRecords := paymentRecords x @
                 map (singleRecord x monthNumbers amt payDate payMethod txId rmks now)
                     monthNumbers\<rparr>)) db"
    with Single completed_push [OF assms(4)] show ?thesis
      by (simp add: findById_update)
  qed
next
  case (Bulk payments now)
  from recordBulkPayment_cases [OF assms(1), of payments now]
  have "snd (recordBulkPayment db docId payments now) = db \<or>
        snd (recordBulkPayment db docId payments now) =
          AList.update docId
               (pre_save (x\<lparr>paymentRecords := paymentRecords x @
                                map (bulkRecord x now) payments\<rparr>)) db"
    by auto
  then show ?thesis
  proof
    assume "snd (recordBulkPayment db docId payments now) = db"
    with Bulk assms show ?thesis by simp
  next
    assume "snd (recordBulkPayment db docId payments now) =
          AList.update docId
               (pre_save (x\<lparr>paymentRecords := paymentRecords x @
                                map (bulkRecord x now) payments\<rparr>)) db"
    with Bulk completed_push [OF assms(4)] show ?thesis
      by (simp add: findById_update)
  qed
qed

lemma completed_applyAll:
  "findById db docId = Some x \<Longrightarrow> status x = Completed \<Longrightarrow>
   tenure x \<le> completedMonths x \<Longrightarrow>
   tenure x \<le> int (length (filter settled (paymentRecords x))) \<Longrightarrow>
   \<exists>x'. findById (applyAll db docId apps) docId = Some x' \<and>
        status x' = Completed \<and> tenure x' \<le> completedMonths x'"
proof (induction apps arbitrary: db x)
  case Nil
  then show ?case by simp
next
  case (Cons app apps)
  from completed_step [OF Cons.prems, of app]
  obtain x' where "findById (applyPayment db docId app) docId = Some x'"
    "status x' = Completed" "tenure x' \<le> completedMonths x'"
    "tenure x' \<le> int (length (filter settled (paymentRecords x')))"
    by blast
  from Cons.IH [OF this] show ?case by simp
qed

text \<open>
  The three handlers that persist through \<^verbatim>\<open>save()\<close> store a document whose cached
  summary agrees with its records.
\<close>

lemma recordPayment_consistent:
  assumes "findById db docId = Some u"
    and "recordPayment db docId monthNumbers amt payDate payMethod txId rmks now =
           (PaymentRecorded saved paid, db')"
  shows "findById db' docId = Some saved \<and> summaryConsistent saved"
  using recordPayment_success [OF assms]
  by (simp add: findById_update summaryConsistent_pre_save)

lemma recordBulkPayment_consistent:
  assumes "findById db docId = Some u"
    and "recordBulkPayment db docId payments now = (BulkPaymentRecorded saved n, db')"
  shows "findById db' docId = Some saved \<and> summaryConsistent saved"
  using recordBulkPayment_cases [OF assms(1), of payments now] assms(2)
  by (auto simp add: findById_update summaryConsistent_pre_save
      dest: validatePayments_Some)

lemma saveNew_consistent:
  "saveNew db newId doc = Inr (saved, db') \<Longrightarrow>
     db' = db @ [(newId, saved)] \<and> summaryConsistent saved"
  by (auto simp add: saveNew_def Let_def summaryConsistent_pre_save split: if_splits)

lemma saveNew_Inl: "saveNew db newId doc = Inl e \<Longrightarrow> e = BadRequest \<or> e = AadharExists"
  by (auto simp add: saveNew_def Let_def split: if_splits)

lemma createUserPayment_saveNew:
  assumes "createUserPayment db newId body = (Created saved, db')"
  shows "\<exists>doc. saveNew db newId doc = Inr (saved, db')"
  using assms unfolding createUserPayment_def Let_def
  by (auto split: option.splits sum.splits prod.splits dest: saveNew_Inl)

lemma createUserPayment_consistent:
  assumes "createUserPayment db newId body = (Created saved, db')"
  shows "db' = db @ [(newId, saved)] \<and> summaryConsistent saved"
  using createUserPayment_saveNew [OF assms] saveNew_consistent by blast

text \<open>
  The end-to-end example: creating the account with start date 2024-01-01, chit amount
  12000 and tenure 12 stores it with a monthly premium of 1000 and the end date
  2025-01-01.
\<close>

lemma pre_save_exampleAccount: "pre_save exampleAccount = exampleAccount"
proof (rule userPayment.equality)
  show "endDate (pre_save exampleAccount) = endDate exampleAccount"
    by (simp add: endDate_pre_save exampleAccount_def)
  show "monthlyPremium (pre_save exampleAccount) = monthlyPremium exampleAccount"
    by (simp add: monthlyPremium_pre_save exampleAccount_def truthy_def)
  show "status (pre_save exampleAccount) = status exampleAccount"
    by (simp add: status_pre_save exampleAccount_def)
  show "lastPaymentDate (pre_save exampleAccount) = lastPaymentDate exampleAccount"
    by (simp add: lastPaymentDate_pre_save exampleAccount_def)
qed (simp_all add: frame_pre_save summary_pre_save sumAmounts_def, simp_all add: exampleAccount_def)

lemma createUserPayment_example:
  "createUserPayment [] 1 exampleBody = (Created exampleAccount, [(1, exampleAccount)])"
proof -
  have valid: "schemaValid exampleAccount"
    by (simp add: schemaValid_def exampleAccount_def aadharValid_def)
  have new: "saveNew [] 1 exampleAccount = Inr (exampleAccount, [(1, exampleAccount)])"
    using valid by (simp add: saveNew_def pre_save_exampleAccount)
  have jan: "setMonth jan1 12 = \<lparr>getFullYear = 2025, getMonth = 0, getDate = 1, getTimeInDay = 0\<rparr>"
    using addMonths_jan1(1) by (simp add: setMonth_def jan1_def daysInMonth_def Let_def)
  have "getMonth jan1 = 0"
    by (simp add: jan1_def)
  with jan new show ?thesis
    unfolding createUserPayment_def exampleBody_def
    by (simp add: Let_def truthy_def exampleAccount_def divNumber_examples)
qed

section \<open>Claims about the derivation pass\<close>

text \<open>
  Claim C2, as stated, fails: the total is accumulated in binary64 arithmetic and is not
  the exact sum when an addition rounds. With a paid record of \<open>2\<^sup>5\<^sup>3\<close> and a paid
  record of 1 the total is \<open>2\<^sup>5\<^sup>3\<close>, and the exact sum is \<open>2\<^sup>5\<^sup>3 + 1\<close>.
\<close>

theorem total_rounds:
  "totalPaidAmount (pre_save bigFirst) = Num 9007199254740992 \<and>
   sum_list (map amount (filter (\<lambda>r. recordStatus r = Paid \<or> recordStatus r = Partial)
                                (paymentRecords bigFirst))) = 9007199254740993 \<and>
   totalPaidAmount (pre_save bigFirst) \<noteq>
     Num (sum_list (map amount (filter (\<lambda>r. recordStatus r = Paid \<or> recordStatus r = Partial)
                                       (paymentRecords bigFirst))))"
proof -
  have flt: "filter settled (paymentRecords bigFirst) =
      [paidRecord 1 9007199254740992, paidRecord 2 1]"
    by (simp add: bigFirst_def settled_def paidRecord_def)
  have amounts: "amount (paidRecord 1 9007199254740992) = 9007199254740992"
    "amount (paidRecord 2 1) = 1"
    by (simp_all add: paidRecord_def)
  have "sumAmounts [paidRecord 1 9007199254740992, paidRecord 2 1] = Num 9007199254740992"
    by (simp add: sumAmounts_def amounts round64_two53 round64_tie)
  then have total: "totalPaidAmount (pre_save bigFirst) = Num 9007199254740992"
    by (simp add: summary_pre_save flt)
  have exact: "sum_list (map amount (filter settled (paymentRecords bigFirst))) =
      9007199254740993"
    by (simp add: flt amounts)
  from total exact show ?thesis
    by (simp add: settled_eq)
qed

text \<open>
  Claim C2, amended. After any derivation pass, \<open>totalPaidAmount\<close> is the sum of
  \<open>amount\<close> over the payment records whose status is paid or partial, accumulated from
  0 in the order of the records in binary64 arithmetic. It is the exact sum when the
  amounts of these records are non-negative whole numbers and their sum is below
  \<open>2\<^sup>5\<^sup>3\<close>. It is recomputed from scratch: the value cached before the pass has no
  influence on the result. Running the pass a second time, with no record added, yields
  the same value.
\<close>

theorem totalPaidAmount_binary64_sum:
  "totalPaidAmount (pre_save a) =
     foldl (\<lambda>total r. addNumber total (amount r)) (Num 0)
       (filter (\<lambda>r. recordStatus r = Paid \<or> recordStatus r = Partial) (paymentRecords a)) \<and>
   ((\<forall>r\<in>set (filter (\<lambda>r. recordStatus r = Paid \<or> recordStatus r = Partial)
                      (paymentRecords a)). \<exists>n::nat. amount r = of_nat n) \<and>
    sum_list (map amount (filter (\<lambda>r. recordStatus r = Paid \<or> recordStatus r = Partial)
                                 (paymentRecords a))) < 2 ^ 53 \<longrightarrow>
    totalPaidAmount (pre_save a) =
      Num (sum_list (map amount (filter (\<lambda>r. recordStatus r = Paid \<or> recordStatus r = Partial)
                                        (paymentRecords a))))) \<and>
   totalPaidAmount (pre_save (pre_save a)) = totalPaidAmount (pre_save a) \<and>
   totalPaidAmount (pre_save (a\<lparr>totalPaidAmount := stale\<rparr>)) = totalPaidAmount (pre_save a)"
proof (intro conjI impI)
  show "totalPaidAmount (pre_save a) =
     foldl (\<lambda>total r. addNumber total (amount r)) (Num 0)
       (filter (\<lambda>r. recordStatus r = Paid \<or> recordStatus r = Partial) (paymentRecords a))"
    by (simp add: summary_pre_save sumAmounts_def settled_eq)
next
  assume "(\<forall>r\<in>set (filter (\<lambda>r. recordStatus r = Paid \<or> recordStatus r = Partial)
                      (paymentRecords a)). \<exists>n::nat. amount r = of_nat n) \<and>
    sum_list (map amount (filter (\<lambda>r. recordStatus r = Paid \<or> recordStatus r = Partial)
                                 (paymentRecords a))) < 2 ^ 53"
  then have "sumAmounts (filter (\<lambda>r. recordStatus r = Paid \<or> recordStatus r = Partial)
                          (paymentRecords a)) =
      Num (sum_list (map amount (filter (\<lambda>r. recordStatus r = Paid \<or> recordStatus r = Partial)
                                        (paymentRecords a))))"
    by (intro sumAmounts_exact) blast+
  then show "totalPaidAmount (pre_save a) =
      Num (sum_list (map amount (filter (\<lambda>r. recordStatus r = Paid \<or> recordStatus r = Partial)
                                        (paymentRecords a))))"
    by (simp add: summary_pre_save settled_eq)
next
  show "totalPaidAmount (pre_save (pre_save a)) = totalPaidAmount (pre_save a)"
    by (simp add: summary_pre_save frame_pre_save)
next
  show "totalPaidAmount (pre_save (a\<lparr>totalPaidAmount := stale\<rparr>)) =
      totalPaidAmount (pre_save a)"
    by (simp add: summary_pre_save)
qed

text \<open>
  Claim C2, amended, at the example account with two paid records of 1000 and one
  pending: the total is 2000, whatever was cached before.
\<close>

theorem totalPaidAmount_binary64_sum_witness:
  "totalPaidAmount (pre_save twoPaid) = Num 2000 \<and>
   totalPaidAmount (pre_save (pre_save twoPaid)) = Num 2000 \<and>
   totalPaidAmount (pre_save (twoPaid\<lparr>totalPaidAmount := Num 77\<rparr>)) = Num 2000"
proof -
  have flt: "filter (\<lambda>r. recordStatus r = Paid \<or> recordStatus r = Partial)
               (paymentRecords twoPaid) = [paidRecord 1 1000, paidRecord 2 1000]"
    by (simp add: twoPaid_def paidRecord_def pendingRecord_def)
  have amounts: "amount (paidRecord 1 1000) = of_nat 1000"
    "amount (paidRecord 2 1000) = of_nat 1000"
    by (simp_all add: paidRecord_def)
  have whole: "\<forall>r\<in>set (filter (\<lambda>r. recordStatus r = Paid \<or> recordStatus r = Partial)
                           (paymentRecords twoPaid)). \<exists>n::nat. amount r = of_nat n"
    unfolding flt using amounts by auto
  have small: "sum_list (map amount (filter (\<lambda>r. recordStatus r = Paid \<or> recordStatus r = Partial)
                                 (paymentRecords twoPaid))) < 2 ^ 53"
    unfolding flt by (simp add: amounts)
  have total: "sum_list (map amount (filter (\<lambda>r. recordStatus r = Paid \<or> recordStatus r = Partial)
                                 (paymentRecords twoPaid))) = 2000"
    unfolding flt by (simp add: amounts)
  from totalPaidAmount_binary64_sum [of twoPaid "Num 77"] whole small
  have "totalPaidAmount (pre_save twoPaid) = Num 2000"
    "totalPaidAmount (pre_save (pre_save twoPaid)) = totalPaidAmount (pre_save twoPaid)"
    "totalPaidAmount (pre_save (twoPaid\<lparr>totalPaidAmount := Num 77\<rparr>)) =
       totalPaidAmount (pre_save twoPaid)"
    unfolding total by blast+
  then show ?thesis by simp
qed

text \<open>
  Claim C3. After any derivation pass, \<open>completedMonths + pendingMonths\<close> equals
  \<open>tenure\<close>, where \<open>completedMonths\<close> is the number of payment records whose status is
  paid or partial.
\<close>

theorem completed_plus_pending:
  "completedMonths (pre_save a) + pendingMonths (pre_save a) = tenure (pre_save a) \<and>
   completedMonths (pre_save a) =
     int (length (filter (\<lambda>r. recordStatus r = Paid \<or> recordStatus r = Partial)
                         (paymentRecords (pre_save a))))"
  by (simp add: summary_pre_save frame_pre_save settled_eq)

text \<open>Claim C3 at the example account: 2 completed, 10 pending, tenure 12.\<close>

theorem completed_plus_pending_witness:
  "completedMonths (pre_save twoPaid) = 2 \<and> pendingMonths (pre_save twoPaid) = 10 \<and>
   tenure (pre_save twoPaid) = 12"
  using completed_plus_pending [of twoPaid]
  by (simp add: frame_pre_save twoPaid_def exampleAccount_def paidRecord_def pendingRecord_def)

text \<open>
  Claim C9, as stated, fails: a \<open>monthlyPremium\<close> that is set to 0 before the pass is
  falsy for the guard \<^verbatim>\<open>!this.monthlyPremium\<close> and is overwritten with
  \<open>chitAmount / tenure\<close>.
\<close>

theorem set_premium_overwritten:
  "monthlyPremium zeroPremium = Some 0 \<and>
   monthlyPremium (pre_save zeroPremium) = Some 1000 \<and>
   monthlyPremium (pre_save zeroPremium) \<noteq> monthlyPremium zeroPremium"
  by (simp add: monthlyPremium_pre_save zeroPremium_def exampleAccount_def truthy_def
      divNumber_examples)

text \<open>
  Claim C9, amended. An \<open>endDate\<close> that is set, and a \<open>monthlyPremium\<close> that is set to
  a value other than 0, are not overwritten by the derivation pass. The pass changes
  \<open>endDate\<close> only when it is absent, and then to \<open>startDate\<close> plus \<open>tenure\<close> months;
  it changes \<open>monthlyPremium\<close> only when it is absent or 0, and then to
  \<open>chitAmount / tenure\<close> (the quotient of the source language, \<open>divNumber\<close>).
\<close>

theorem derive_only_if_falsy:
  "(endDate a \<noteq> None \<longrightarrow> endDate (pre_save a) = endDate a) \<and>
   (monthlyPremium a \<noteq> None \<and> monthlyPremium a \<noteq> Some 0 \<longrightarrow>
      monthlyPremium (pre_save a) = monthlyPremium a) \<and>
   (endDate (pre_save a) \<noteq> endDate a \<longrightarrow>
      endDate a = None \<and> endDate (pre_save a) = Some (addMonths (startDate a) (tenure a))) \<and>
   (monthlyPremium (pre_save a) \<noteq> monthlyPremium a \<longrightarrow>
      (monthlyPremium a = None \<or> monthlyPremium a = Some 0) \<and>
      monthlyPremium (pre_save a) =
        Some (divNumber (chitAmount a) (of_int (tenure a))))"
  by (auto simp add: endDate_pre_save monthlyPremium_pre_save truthy_def addMonths_def
      split: option.splits if_splits)

text \<open>
  Claim C9, amended, at an account with its own end date and premium (both kept) and at
  an account with neither (both derived: 2025-01-01 and 1000).
\<close>

theorem derive_only_if_falsy_witness:
  "endDate ownTerms = Some mar15 \<and> endDate (pre_save ownTerms) = Some mar15 \<and>
   monthlyPremium ownTerms = Some 900 \<and> monthlyPremium (pre_save ownTerms) = Some 900 \<and>
   endDate noTerms = None \<and>
   endDate (pre_save noTerms) =
     Some \<lparr>getFullYear = 2025, getMonth = 0, getDate = 1, getTimeInDay = 0\<rparr> \<and>
   monthlyPremium noTerms = None \<and> monthlyPremium (pre_save noTerms) = Some 1000"
proof -
  have own: "endDate ownTerms = Some mar15" "monthlyPremium ownTerms = Some 900"
    by (simp_all add: ownTerms_def)
  have no: "endDate noTerms = None" "monthlyPremium noTerms = None"
    "startDate noTerms = jan1" "tenure noTerms = 12" "chitAmount noTerms = 12000"
    by (simp_all add: noTerms_def exampleAccount_def)
  have changed: "endDate (pre_save noTerms) \<noteq> endDate noTerms"
    "monthlyPremium (pre_save noTerms) \<noteq> monthlyPremium noTerms"
    by (simp_all add: endDate_pre_save monthlyPremium_pre_save no truthy_def)
  have add: "addMonths jan1 12 = \<lparr>getFullYear = 2025, getMonth = 0, getDate = 1, getTimeInDay = 0\<rparr>"
    by (simp add: addMonths_def setMonth_def jan1_def daysInMonth_def Let_def)
  from derive_only_if_falsy [of ownTerms] own
  have "endDate (pre_save ownTerms) = Some mar15 \<and> monthlyPremium (pre_save ownTerms) = Some 900"
    by simp
  moreover from derive_only_if_falsy [of noTerms] changed no add
  have "endDate (pre_save noTerms) =
     Some \<lparr>getFullYear = 2025, getMonth = 0, getDate = 1, getTimeInDay = 0\<rparr> \<and>
     monthlyPremium (pre_save noTerms) = Some 1000"
    by (simp add: divNumber_examples)
  ultimately show ?thesis using own no by simp
qed

text \<open>
  Claim C10. When the status of an account is cancelled and the number of its payment
  records with status paid or partial has reached \<open>tenure\<close>, the derivation pass
  overwrites the status with completed.
\<close>

theorem cancelled_overwritten:
  assumes "status a = Cancelled"
    and "int (length (filter (\<lambda>r. recordStatus r = Paid \<or> recordStatus r = Partial)
                             (paymentRecords a))) \<ge> tenure a"
  shows "status (pre_save a) = Completed"
  using assms by (simp add: status_pre_save settled_eq)

text \<open>Claim C10 at a cancelled account of tenure 2 with two paid records.\<close>

theorem cancelled_overwritten_witness:
  "status cancelledFull = Cancelled \<and>
   int (length (filter (\<lambda>r. recordStatus r = Paid \<or> recordStatus r = Partial)
                       (paymentRecords cancelledFull))) \<ge> tenure cancelledFull \<and>
   status (pre_save cancelledFull) = Completed"
proof -
  have h1: "status cancelledFull = Cancelled"
    by (simp add: cancelledFull_def)
  have h2: "int (length (filter (\<lambda>r. recordStatus r = Paid \<or> recordStatus r = Partial)
                       (paymentRecords cancelledFull))) \<ge> tenure cancelledFull"
    by (simp add: cancelledFull_def paidRecord_def)
  show ?thesis using h1 h2 cancelled_overwritten [OF h1 h2] by simp
qed

section \<open>Claims about the single payment\<close>

text \<open>
  Claim C5. When some requested month number \<open>m\<close> of a single payment violates
  \<open>1 \<le> m \<le> tenure\<close>, the request fails with the validation error that names all the
  offending month numbers, and the store, hence the \<open>paymentRecords\<close> of the account,
  is left as it was.
\<close>

theorem recordPayment_out_of_range:
  assumes "findById db docId = Some u"
    and "\<exists>m\<in>set monthNumbers. \<not> (1 \<le> m \<and> m \<le> tenure u)"
  shows "recordPayment db docId monthNumbers amt payDate payMethod txId rmks now =
           (InvalidMonthNumbers (filter (\<lambda>m. \<not> (1 \<le> m \<and> m \<le> tenure u)) monthNumbers)
                                (tenure u), db)"
proof -
  have "filter (\<lambda>m. \<not> (1 \<le> m \<and> m \<le> tenure u)) monthNumbers \<noteq> []"
    using assms(2) by (simp add: filter_empty_conv)
  then show ?thesis
    using assms(1) by (simp add: recordPayment_def out_of_range_filter Let_def)
qed

text \<open>Claim C5 at tenure 12 and the requested months 3, 13 and 0.\<close>

theorem recordPayment_out_of_range_witness:
  "recordPayment [(1, exampleAccount)] 1 [3, 13, 0] 3000 None None None None mar15 =
     (InvalidMonthNumbers [13, 0] 12, [(1, exampleAccount)])"
proof -
  have h1: "findById [(1, exampleAccount)] 1 = Some exampleAccount"
    by (simp add: findById_def)
  have h2: "\<exists>m\<in>set [3, 13, 0]. \<not> (1 \<le> m \<and> m \<le> tenure exampleAccount)"
    by (simp add: exampleAccount_def)
  show ?thesis
    using recordPayment_out_of_range [OF h1 h2, of 3000 None None None None mar15]
    by (simp add: exampleAccount_def)
qed

text \<open>
  Claim C4, as stated, fails: the range check comes first, so a request that names a
  paid month together with a month out of range is answered with the validation error
  and not with the conflict error. Month 1 of the account is paid, and the request for
  the months 1 and 13 is answered with "Invalid month numbers: 13".
\<close>

theorem paid_month_reported_invalid:
  "monthNumber (hd (paymentRecords paidJanuary)) = 1 \<and>
   recordStatus (hd (paymentRecords paidJanuary)) = Paid \<and>
   recordPayment [(1, paidJanuary)] 1 [1, 13] 2000 None None None None mar15 =
     (InvalidMonthNumbers [13] 12, [(1, paidJanuary)]) \<and>
   fst (recordPayment [(1, paidJanuary)] 1 [1, 13] 2000 None None None None mar15) \<noteq>
     MonthsAlreadyPaid [1]"
  by (simp add: recordPayment_def findById_def paidJanuary_def exampleAccount_def
      paidRecord_def Let_def)

text \<open>
  Claim C4, amended. When every requested month number of a single payment lies within
  \<open>1..tenure\<close> and some requested month number already has a payment record with status
  paid, the request fails with the conflict error that lists the month numbers of those
  records, which are exactly the requested months already paid, and the store, hence
  the \<open>paymentRecords\<close> of the account, is left as it was.
\<close>

theorem recordPayment_already_paid:
  assumes "findById db docId = Some u"
    and "\<forall>m\<in>set monthNumbers. 1 \<le> m \<and> m \<le> tenure u"
    and "\<exists>r\<in>set (paymentRecords u). monthNumber r \<in> set monthNumbers \<and> recordStatus r = Paid"
  shows "recordPayment db docId monthNumbers amt payDate payMethod txId rmks now =
           (MonthsAlreadyPaid
              (map monthNumber
                 (filter (\<lambda>r. monthNumber r \<in> set monthNumbers \<and> recordStatus r = Paid)
                         (paymentRecords u))), db) \<and>
         set (map monthNumber
                 (filter (\<lambda>r. monthNumber r \<in> set monthNumbers \<and> recordStatus r = Paid)
                         (paymentRecords u))) =
           {m \<in> set monthNumbers.
              \<exists>r\<in>set (paymentRecords u). monthNumber r = m \<and> recordStatus r = Paid}"
proof -
  have inrange: "filter (\<lambda>m. \<not> (1 \<le> m \<and> m \<le> tenure u)) monthNumbers = []"
    using assms(2) by (simp add: filter_empty_conv)
  have paid: "filter (\<lambda>r. monthNumber r \<in> set monthNumbers \<and> recordStatus r = Paid)
                (paymentRecords u) \<noteq> []"
    using assms(3) by (simp add: filter_empty_conv)
  have "recordPayment db docId monthNumbers amt payDate payMethod txId rmks now =
           (MonthsAlreadyPaid
              (map monthNumber
                 (filter (\<lambda>r. monthNumber r \<in> set monthNumbers \<and> recordStatus r = Paid)
                         (paymentRecords u))), db)"
    using assms(1) inrange paid
    by (simp add: recordPayment_def out_of_range_filter Let_def)
  moreover have "set (map monthNumber
                 (filter (\<lambda>r. monthNumber r \<in> set monthNumbers \<and> recordStatus r = Paid)
                         (paymentRecords u))) =
           {m \<in> set monthNumbers.
              \<exists>r\<in>set (paymentRecords u). monthNumber r = m \<and> recordStatus r = Paid}"
    by auto
  ultimately show ?thesis by simp
qed

text \<open>Claim C4, amended, at an account with month 1 paid and the requested months 1, 2.\<close>

theorem recordPayment_already_paid_witness:
  "recordPayment [(1, paidJanuary)] 1 [1, 2] 2000 None None None None mar15 =
     (MonthsAlreadyPaid [1], [(1, paidJanuary)])"
proof -
  have h1: "findById [(1, paidJanuary)] 1 = Some paidJanuary"
    by (simp add: findById_def)
  have h2: "\<forall>m\<in>set [1, 2]. 1 \<le> m \<and> m \<le> tenure paidJanuary"
    by (simp add: paidJanuary_def exampleAccount_def)
  have h3: "\<exists>r\<in>set (paymentRecords paidJanuary).
              monthNumber r \<in> set [1, 2] \<and> recordStatus r = Paid"
    by (simp add: paidJanuary_def paidRecord_def)
  show ?thesis
    using recordPayment_already_paid [OF h1 h2 h3, of 2000 None None None None mar15]
    by (simp add: paidJanuary_def paidRecord_def)
qed

text \<open>
  Claim C6. After a successful single payment the stored account holds its former
  records followed by one new record for each requested month number, in the order of
  the request: its amount is the total amount divided by the number of requested
  months (the quotient of the source language, \<open>divNumber\<close>), its due date is the
  start date plus (month number - 1) months, its payment date is the supplied one or
  else the current time, its status is paid and its payment method is the supplied one
  or else cash. (The statement needs no assumption on the
  length of the list: for an empty list no record is appended.)
\<close>

theorem recordPayment_even_split:
  assumes "findById db docId = Some u"
    and "recordPayment db docId monthNumbers amt payDate payMethod txId rmks now =
           (PaymentRecorded saved paid, db')"
  shows "findById db' docId = Some saved \<and>
         paymentRecords saved =
           paymentRecords u @
           map (\<lambda>m. \<lparr>monthNumber = m,
                      amount = divNumber amt (of_nat (length monthNumbers)),
                      paymentDate = (case payDate of None \<Rightarrow> now | Some d \<Rightarrow> d),
                      dueDate = addMonths (startDate u) (m - 1),
                      recordStatus = Paid,
                      paymentMethod = (case payMethod of None \<Rightarrow> ''cash''
                                       | Some x \<Rightarrow> if x = [] then ''cash'' else x),
                      transactionId = map_option trim txId,
                      remarks = map_option trim rmks,
                      lateFee = 0\<rparr>) monthNumbers"
  using recordPayment_success [OF assms]
  by (simp add: findById_update frame_pre_save singleRecord_eq)

text \<open>
  Claim C6 at the example account: 1200 for the months 1, 2, 3 gives three paid records
  of 400 each, due on the first of January, February and March 2024.
\<close>

theorem recordPayment_even_split_witness:
  "(case recordPayment [(1, exampleAccount)] 1 [1, 2, 3] 1200 None None None None mar15 of
      (PaymentRecorded saved paid, db') \<Rightarrow>
         findById db' 1 = Some saved \<and>
         map monthNumber (paymentRecords saved) = [1, 2, 3] \<and>
         map amount (paymentRecords saved) = [400, 400, 400] \<and>
         map dueDate (paymentRecords saved) =
           [jan1, jan1\<lparr>getMonth := 1\<rparr>, jan1\<lparr>getMonth := 2\<rparr>] \<and>
         map paymentDate (paymentRecords saved) = [mar15, mar15, mar15] \<and>
         map recordStatus (paymentRecords saved) = [Paid, Paid, Paid] \<and>
         map paymentMethod (paymentRecords saved) = [''cash'', ''cash'', ''cash'']
    | _ \<Rightarrow> False)"
proof -
  define pushed where "pushed = exampleAccount\<lparr>paymentRecords :=
      paymentRecords exampleAccount @
      map (singleRecord exampleAccount [1, 2, 3] 1200 None None None None mar15) [1, 2, 3]\<rparr>"
  have h1: "findById [(1, exampleAccount)] 1 = Some exampleAccount"
    by (simp add: findById_def)
  have valid: "schemaValid pushed"
    by (simp add: pushed_def schemaValid_def exampleAccount_def aadharValid_def recordValid_def
        singleRecord_def paymentMethods_def divNumber_examples)
  have h2: "recordPayment [(1, exampleAccount)] 1 [1, 2, 3] 1200 None None None None mar15 =
     (PaymentRecorded (pre_save pushed) [1, 2, 3], AList.update 1 (pre_save pushed) [(1, exampleAccount)])"
    using valid unfolding pushed_def
    by (simp add: recordPayment_def findById_def exampleAccount_fields save_def Let_def)
  show ?thesis
    unfolding h2 using recordPayment_even_split [OF h1 h2]
    by (simp add: exampleAccount_fields addMonths_jan1 divNumber_examples)
qed

section \<open>Claims about the bulk payment\<close>

text \<open>
  Claim C8. The validation of a bulk payment checks each entry for the range of its
  month number and for a stored paid record of that month, and for nothing else: no
  condition relates two entries of the batch. When every entry passes the two checks
  (and the document with the new records passes the schema validators of
  \<^verbatim>\<open>save()\<close>), the request succeeds and every entry of the batch, entries that repeat
  a month number included, is appended as a paid record of its own, with the amount of
  the entry (no split) and the late fee of the entry (0 when absent). When some entry
  fails a check, the response is the error of an entry and the store is left as it was.
  Whenever the request does not succeed, the store is left as it was.
\<close>

theorem recordBulkPayment_per_entry:
  assumes "findById db docId = Some u"
  shows
    "((\<forall>p\<in>set payments. 1 \<le> payMonthNumber p \<and> payMonthNumber p \<le> tenure u \<and>
         (\<forall>r\<in>set (paymentRecords u).
            monthNumber r = payMonthNumber p \<longrightarrow> recordStatus r \<noteq> Paid)) \<and>
      schemaValid (u\<lparr>paymentRecords := paymentRecords u @
                        map (bulkRecord u now) payments\<rparr>) \<longrightarrow>
      (\<exists>saved.
         recordBulkPayment db docId payments now =
           (BulkPaymentRecorded saved (length payments), AList.update docId saved db) \<and>
         paymentRecords saved =
           paymentRecords u @
           map (\<lambda>p. \<lparr>monthNumber = payMonthNumber p,
                      amount = payAmount p,
                      paymentDate = (case payPaymentDate p of None \<Rightarrow> now | Some d \<Rightarrow> d),
                      dueDate = addMonths (startDate u) (payMonthNumber p - 1),
                      recordStatus = Paid,
                      paymentMethod = (case payPaymentMethod p of None \<Rightarrow> ''cash''
                                       | Some x \<Rightarrow> if x = [] then ''cash'' else x),
                      transactionId = map_option trim (payTransactionId p),
                      remarks = map_option trim (payRemarks p),
                      lateFee = (case payLateFee p of None \<Rightarrow> 0 | Some fee \<Rightarrow> fee)\<rparr>)
               payments)) \<and>
     (\<not> (\<forall>p\<in>set payments. 1 \<le> payMonthNumber p \<and> payMonthNumber p \<le> tenure u \<and>
         (\<forall>r\<in>set (paymentRecords u).
            monthNumber r = payMonthNumber p \<longrightarrow> recordStatus r \<noteq> Paid)) \<longrightarrow>
      (\<exists>p\<in>set payments.
         recordBulkPayment db docId payments now =
           (InvalidMonthNumber (payMonthNumber p) (tenure u), db) \<or>
         recordBulkPayment db docId payments now =
           (MonthAlreadyPaid (payMonthNumber p), db))) \<and>
     ((\<forall>saved n. fst (recordBulkPayment db docId payments now) \<noteq>
                    BulkPaymentRecorded saved n) \<longrightarrow>
      snd (recordBulkPayment db docId payments now) = db)"
proof (intro conjI impI)
  assume ok: "(\<forall>p\<in>set payments. 1 \<le> payMonthNumber p \<and> payMonthNumber p \<le> tenure u \<and>
         (\<forall>r\<in>set (paymentRecords u).
            monthNumber r = payMonthNumber p \<longrightarrow> recordStatus r \<noteq> Paid)) \<and>
      schemaValid (u\<lparr>paymentRecords := paymentRecords u @
                        map (bulkRecord u now) payments\<rparr>)"
  then have none: "validatePayments u payments = None"
    by (simp add: validatePayments_None_iff)
  let ?saved = "pre_save (u\<lparr>paymentRecords := paymentRecords u @
                                map (bulkRecord u now) payments\<rparr>)"
  have "recordBulkPayment db docId payments now =
          (BulkPaymentRecorded ?saved (length payments), AList.update docId ?saved db)"
    using recordBulkPayment_cases [OF assms, of payments now] none ok by simp
  moreover have "paymentRecords ?saved = paymentRecords u @ map (bulkRecord u now) payments"
    by (simp add: frame_pre_save)
  ultimately show "\<exists>saved.
         recordBulkPayment db docId payments now =
           (BulkPaymentRecorded saved (length payments), AList.update docId saved db) \<and>
         paymentRecords saved =
           paymentRecords u @
           map (\<lambda>p. \<lparr>monthNumber = payMonthNumber p,
                      amount = payAmount p,
                      paymentDate = (case payPaymentDate p of None \<Rightarrow> now | Some d \<Rightarrow> d),
                      dueDate = addMonths (startDate u) (payMonthNumber p - 1),
                      recordStatus = Paid,
                      paymentMethod = (case payPaymentMethod p of None \<Rightarrow> ''cash''
                                       | Some x \<Rightarrow> if x = [] then ''cash'' else x),
                      transactionId = map_option trim (payTransactionId p),
                      remarks = map_option trim (payRemarks p),
                      lateFee = (case payLateFee p of None \<Rightarrow> 0 | Some fee \<Rightarrow> fee)\<rparr>)
               payments"
    unfolding bulkRecord_eq by blast
next
  assume bad: "\<not> (\<forall>p\<in>set payments. 1 \<le> payMonthNumber p \<and> payMonthNumber p \<le> tenure u \<and>
         (\<forall>r\<in>set (paymentRecords u).
            monthNumber r = payMonthNumber p \<longrightarrow> recordStatus r \<noteq> Paid))"
  then have "validatePayments u payments \<noteq> None"
    by (simp add: validatePayments_None_iff)
  then obtain e where e: "validatePayments u payments = Some e"
    by auto
  then have res: "recordBulkPayment db docId payments now = (e, db)"
    using recordBulkPayment_cases [OF assms, of payments now] by simp
  from validatePayments_Some [OF e] res
  show "\<exists>p\<in>set payments.
         recordBulkPayment db docId payments now =
           (InvalidMonthNumber (payMonthNumber p) (tenure u), db) \<or>
         recordBulkPayment db docId payments now =
           (MonthAlreadyPaid (payMonthNumber p), db)"
    by auto
next
  assume "\<forall>saved n. fst (recordBulkPayment db docId payments now) \<noteq>
                    BulkPaymentRecorded saved n"
  then show "snd (recordBulkPayment db docId payments now) = db"
    using recordBulkPayment_cases [OF assms, of payments now] by auto
qed

text \<open>
  Claim C8 at the example account: a batch of two entries for month 3, of 100 and of
  200 with a late fee of 25, is accepted and appended as two paid records; a batch with
  the months 3 and 13 leaves the store as it was.
\<close>

theorem recordBulkPayment_per_entry_witness:
  "(case recordBulkPayment [(1, exampleAccount)] 1 sameMonthTwice mar15 of
      (BulkPaymentRecorded saved n, db') \<Rightarrow>
         n = 2 \<and> db' = [(1, saved)] \<and>
         map monthNumber (paymentRecords saved) = [3, 3] \<and>
         map amount (paymentRecords saved) = [100, 200] \<and>
         map lateFee (paymentRecords saved) = [0, 25] \<and>
         map recordStatus (paymentRecords saved) = [Paid, Paid]
    | _ \<Rightarrow> False) \<and>
   snd (recordBulkPayment [(1, exampleAccount)] 1 oneOutOfRange mar15) =
     [(1, exampleAccount)]"
proof -
  have h: "findById [(1, exampleAccount)] 1 = Some exampleAccount"
    by (simp add: findById_def)
  note thm1 = recordBulkPayment_per_entry [OF h, of sameMonthTwice mar15]
  note thm2 = recordBulkPayment_per_entry [OF h, of oneOutOfRange mar15]
  have checks: "\<forall>p\<in>set sameMonthTwice.
      1 \<le> payMonthNumber p \<and> payMonthNumber p \<le> tenure exampleAccount \<and>
      (\<forall>r\<in>set (paymentRecords exampleAccount).
         monthNumber r = payMonthNumber p \<longrightarrow> recordStatus r \<noteq> Paid)"
    by (simp add: sameMonthTwice_def bulkEntry_def exampleAccount_fields)
  have valid: "schemaValid (exampleAccount\<lparr>paymentRecords :=
      paymentRecords exampleAccount @ map (bulkRecord exampleAccount mar15) sameMonthTwice\<rparr>)"
    by (simp add: schemaValid_def exampleAccount_def aadharValid_def recordValid_def
        bulkRecord_def sameMonthTwice_def bulkEntry_def paymentMethods_def truthy_def)
  from thm1 checks valid obtain saved where
    res: "recordBulkPayment [(1, exampleAccount)] 1 sameMonthTwice mar15 =
            (BulkPaymentRecorded saved (length sameMonthTwice),
             AList.update 1 saved [(1, exampleAccount)])"
    and recs: "map monthNumber (paymentRecords saved) = [3, 3]"
      "map amount (paymentRecords saved) = [100, 200]"
      "map lateFee (paymentRecords saved) = [0, 25]"
      "map recordStatus (paymentRecords saved) = [Paid, Paid]"
    by (auto simp add: sameMonthTwice_def bulkEntry_def exampleAccount_fields)
  have first: "(case recordBulkPayment [(1, exampleAccount)] 1 sameMonthTwice mar15 of
      (BulkPaymentRecorded saved n, db') \<Rightarrow>
         n = 2 \<and> db' = [(1, saved)] \<and>
         map monthNumber (paymentRecords saved) = [3, 3] \<and>
         map amount (paymentRecords saved) = [100, 200] \<and>
         map lateFee (paymentRecords saved) = [0, 25] \<and>
         map recordStatus (paymentRecords saved) = [Paid, Paid]
    | _ \<Rightarrow> False)"
    unfolding res using recs by (simp add: sameMonthTwice_def)
  have bad: "\<not> (\<forall>p\<in>set oneOutOfRange.
      1 \<le> payMonthNumber p \<and> payMonthNumber p \<le> tenure exampleAccount \<and>
      (\<forall>r\<in>set (paymentRecords exampleAccount).
         monthNumber r = payMonthNumber p \<longrightarrow> recordStatus r \<noteq> Paid))"
    by (simp add: oneOutOfRange_def bulkEntry_def exampleAccount_fields)
  from thm2 bad have "\<exists>p\<in>set oneOutOfRange.
         recordBulkPayment [(1, exampleAccount)] 1 oneOutOfRange mar15 =
           (InvalidMonthNumber (payMonthNumber p) (tenure exampleAccount), [(1, exampleAccount)]) \<or>
         recordBulkPayment [(1, exampleAccount)] 1 oneOutOfRange mar15 =
           (MonthAlreadyPaid (payMonthNumber p), [(1, exampleAccount)])"
    by blast
  then have "\<forall>saved n. fst (recordBulkPayment [(1, exampleAccount)] 1 oneOutOfRange mar15) \<noteq>
                    BulkPaymentRecorded saved n"
    by auto
  with thm2 have second: "snd (recordBulkPayment [(1, exampleAccount)] 1 oneOutOfRange mar15) =
     [(1, exampleAccount)]"
    by blast
  from first second show ?thesis by (rule conjI)
qed

section \<open>Claims about sequences of payment applications\<close>

text \<open>
  Claim C7. When the document stored by a derivation pass has \<open>completedMonths\<close> at or
  above \<open>tenure\<close>, that pass has set its status to completed, and after every further
  sequence of payment applications (single or bulk, accepted or rejected) the stored
  document still has the status completed and \<open>completedMonths\<close> at or above
  \<open>tenure\<close>.
\<close>

theorem completed_stays_completed:
  assumes "findById db docId = Some (pre_save a)"
    and "tenure (pre_save a) \<le> completedMonths (pre_save a)"
  shows "status (pre_save a) = Completed \<and>
         (\<forall>apps. \<exists>a'. findById (applyAll db docId apps) docId = Some a' \<and>
                       status a' = Completed \<and> tenure a' \<le> completedMonths a')"
proof -
  from assms(2) have cnt: "tenure a \<le> int (length (filter settled (paymentRecords a)))"
    by (simp add: summary_pre_save frame_pre_save)
  then have st: "status (pre_save a) = Completed"
    by (simp add: status_pre_save)
  from cnt have cnt': "tenure (pre_save a)
      \<le> int (length (filter settled (paymentRecords (pre_save a))))"
    by (simp add: frame_pre_save)
  from completed_applyAll [OF assms(1) st assms(2) cnt'] st show ?thesis by blast
qed

text \<open>
  Claim C7 at an account of tenure 2 that was completed by two paid records, followed
  by an accepted single payment (month 2) and two rejected bulk payments (month 3 is out
  of range, month 2 is paid by then).
\<close>

theorem completed_stays_completed_witness:
  "tenure (pre_save dupJanuary) \<le> completedMonths (pre_save dupJanuary) \<and>
   status (pre_save dupJanuary) = Completed \<and>
   map_option status
     (findById (applyAll [(1, pre_save dupJanuary)] 1
                  [Single [2] 6000 None None None None mar15,
                   Bulk sameMonthTwice mar15,
                   Bulk [bulkEntry 2 50 None] mar15]) 1) = Some Completed"
proof -
  have h1: "findById [(1, pre_save dupJanuary)] 1 = Some (pre_save dupJanuary)"
    by (simp add: findById_def)
  have h2: "tenure (pre_save dupJanuary) \<le> completedMonths (pre_save dupJanuary)"
    by (simp add: summary_pre_save frame_pre_save dupJanuary_def paidRecord_def settled_def)
  let ?apps = "[Single [2] 6000 None None None None mar15,
                Bulk sameMonthTwice mar15,
                Bulk [bulkEntry 2 50 None] mar15]"
  from completed_stays_completed [OF h1 h2]
  have st: "status (pre_save dupJanuary) = Completed"
    and "\<exists>a'. findById (applyAll [(1, pre_save dupJanuary)] 1 ?apps) 1 = Some a' \<and>
              status a' = Completed \<and> tenure a' \<le> completedMonths a'"
    by blast+
  then obtain a' where
    "findById (applyAll [(1, pre_save dupJanuary)] 1 ?apps) 1 = Some a'"
    "status a' = Completed"
    by blast
  then have "map_option status (findById (applyAll [(1, pre_save dupJanuary)] 1 ?apps) 1) =
      Some Completed"
    by (simp only: option.map)
  with h2 st show ?thesis by (intro conjI)
qed

section \<open>Claims about the administrative update\<close>

text \<open>
  Claim C1 says that every public mutation path runs the derivation pass before it
  persists, so that the persisted summary agrees with the persisted records. The
  handlers \<^verbatim>\<open>createUserPayment\<close>, \<^verbatim>\<open>recordPayment\<close> and \<^verbatim>\<open>recordBulkPayment\<close> do
  (lemmas \<open>createUserPayment_consistent\<close>, \<open>recordPayment_consistent\<close> and
  \<open>recordBulkPayment_consistent\<close>); \<^verbatim>\<open>updateUserPayment\<close> does not. Starting from a
  stored document whose summary agrees with its records (two paid records of 1000,
  tenure 12), the patch that sets \<open>tenure\<close> to 24 and \<open>totalPaidAmount\<close> to 999 is
  accepted and persisted as it is: the stored document then has
  \<open>completedMonths + pendingMonths = 12\<close> against a tenure of 24, and a
  \<open>totalPaidAmount\<close> of 999 against paid records that sum to 2000.
\<close>

theorem updateUserPayment_skips_derivation:
  "summaryConsistent (pre_save twoPaid) \<and>
   updateUserPayment [(1, pre_save twoPaid)] 1 [SetTenure 24, SetTotalPaidAmount 999] =
     (Updated staleAccount, [(1, staleAccount)]) \<and>
   \<not> summaryConsistent staleAccount \<and>
   tenure staleAccount = 24 \<and>
   completedMonths staleAccount + pendingMonths staleAccount = 12 \<and>
   totalPaidAmount staleAccount = Num 999 \<and>
   sum_list (map amount (filter settled (paymentRecords staleAccount))) = 2000"
proof -
  have flt: "filter settled (paymentRecords twoPaid) = [paidRecord 1 1000, paidRecord 2 1000]"
    by (simp add: twoPaid_def settled_def paidRecord_def pendingRecord_def)
  have recs: "paymentRecords staleAccount = paymentRecords twoPaid"
    by (simp add: staleAccount_def frame_pre_save)
  have total: "sum_list (map amount (filter settled (paymentRecords staleAccount))) = 2000"
    unfolding recs flt by (simp add: paidRecord_def)
  have t12: "tenure twoPaid = 12"
    by (simp add: twoPaid_def exampleAccount_fields)
  have fields: "tenure staleAccount = 24" "totalPaidAmount staleAccount = Num 999"
    "completedMonths staleAccount = 2" "pendingMonths staleAccount = 10"
    by (simp_all add: staleAccount_def summary_pre_save flt t12)
  have upd: "updateUserPayment [(1, pre_save twoPaid)] 1 [SetTenure 24, SetTotalPaidAmount 999] =
     (Updated staleAccount, [(1, staleAccount)])"
    by (simp add: updateUserPayment_def findById_def staleAccount_def Let_def)
  have "\<not> summaryConsistent staleAccount"
    using total fields by (simp add: summaryConsistent_def Let_def)
  with upd total fields summaryConsistent_pre_save [of twoPaid] show ?thesis by simp
qed

end
